theory Spec2Isabelle
  imports Complex_Main
begin

section \<open>JavaScript strings and numbers\<close>

text \<open>
  Strings are lists of characters. The helpers below are the string methods the
  persistence core calls: \<open>trim\<close>, \<open>split('\n')\<close>, \<open>join\<close>, \<open>includes\<close>,
  \<open>startsWith\<close>, \<open>endsWith\<close> and \<open>toLowerCase\<close>.
\<close>

definition LF :: char where
  "LF = CHR 0x0A"

definition QUOTE :: char where
  "QUOTE = CHR 0x22"

definition COMMA :: char where
  "COMMA = CHR '',''"

definition HASH :: char where
  "HASH = CHR ''#''"

text \<open>White space removed by \<open>String.prototype.trim\<close>: tab, line feed, vertical tab,
  form feed, carriage return, space and no-break space.\<close>

definition is_ws :: "char \<Rightarrow> bool" where
  "is_ws c = (c = CHR 0x09 \<or> c = CHR 0x0A \<or> c = CHR 0x0B \<or> c = CHR 0x0C \<or> c = CHR 0x0D \<or>
              c = CHR 0x20 \<or> c = CHR 0xA0)"

definition trim :: "string \<Rightarrow> string" where
  "trim s = rev (dropWhile is_ws (rev (dropWhile is_ws s)))"

fun split :: "char \<Rightarrow> string \<Rightarrow> string list" where
  "split sep [] = [[]]"
| "split sep (c # cs) =
     (if c = sep then [] # split sep cs
      else (case split sep cs of
              [] \<Rightarrow> [[c]]
            | l # ls \<Rightarrow> (c # l) # ls))"

fun join :: "string \<Rightarrow> string list \<Rightarrow> string" where
  "join sep [] = []"
| "join sep [x] = x"
| "join sep (x # y # ys) = x @ sep @ join sep (y # ys)"

fun startsWith :: "string \<Rightarrow> string \<Rightarrow> bool" where
  "startsWith s [] = True"
| "startsWith [] (p # ps) = False"
| "startsWith (c # cs) (p # ps) = (c = p \<and> startsWith cs ps)"

definition endsWith :: "string \<Rightarrow> string \<Rightarrow> bool" where
  "endsWith s suf = startsWith (rev s) (rev suf)"

fun includes_str :: "string \<Rightarrow> string \<Rightarrow> bool" where
  "includes_str [] sub = (sub = [])"
| "includes_str (c # cs) sub = (startsWith (c # cs) sub \<or> includes_str cs sub)"

text \<open>Lower-casing of the code units below 256: \<open>A\<close>--\<open>Z\<close> and the Latin-1 capitals
  \<open>0xC0\<close>--\<open>0xDE\<close> without the multiplication sign \<open>0xD7\<close>.\<close>

definition lower_table :: "(char \<times> char) list" where
  "lower_table =
     zip (''ABCDEFGHIJKLMNOPQRSTUVWXYZ'' @
          [CHR 0xC0, CHR 0xC1, CHR 0xC2, CHR 0xC3, CHR 0xC4, CHR 0xC5, CHR 0xC6, CHR 0xC7,
           CHR 0xC8, CHR 0xC9, CHR 0xCA, CHR 0xCB, CHR 0xCC, CHR 0xCD, CHR 0xCE, CHR 0xCF,
           CHR 0xD0, CHR 0xD1, CHR 0xD2, CHR 0xD3, CHR 0xD4, CHR 0xD5, CHR 0xD6,
           CHR 0xD8, CHR 0xD9, CHR 0xDA, CHR 0xDB, CHR 0xDC, CHR 0xDD, CHR 0xDE])
         (''abcdefghijklmnopqrstuvwxyz'' @
          [CHR 0xE0, CHR 0xE1, CHR 0xE2, CHR 0xE3, CHR 0xE4, CHR 0xE5, CHR 0xE6, CHR 0xE7,
           CHR 0xE8, CHR 0xE9, CHR 0xEA, CHR 0xEB, CHR 0xEC, CHR 0xED, CHR 0xEE, CHR 0xEF,
           CHR 0xF0, CHR 0xF1, CHR 0xF2, CHR 0xF3, CHR 0xF4, CHR 0xF5, CHR 0xF6,
           CHR 0xF8, CHR 0xF9, CHR 0xFA, CHR 0xFB, CHR 0xFC, CHR 0xFD, CHR 0xFE])"

definition lower_char :: "char \<Rightarrow> char" where
  "lower_char c = (case map_of lower_table c of None \<Rightarrow> c | Some l \<Rightarrow> l)"

definition toLowerCase :: "string \<Rightarrow> string" where
  "toLowerCase s = map lower_char s"

text \<open>Decimal rendering of an integral number, as a template literal or
  \<open>toString()\<close> renders a count, a row index or a millisecond time stamp.\<close>

definition digit_char :: "nat \<Rightarrow> char" where
  "digit_char d = ''0123456789'' ! d"

fun show_nat :: "nat \<Rightarrow> string" where
  "show_nat n = (if n < 10 then [digit_char n] else show_nat (n div 10) @ [digit_char (n mod 10)])"

declare show_nat.simps [simp del]

definition show_int :: "int \<Rightarrow> string" where
  "show_int i = (if i < 0 then CHR ''-'' # show_nat (nat (- i)) else show_nat (nat i))"

text \<open>
  A JavaScript number: a finite value (every double is a rational), the two
  infinities, or \<open>NaN\<close>.
\<close>

datatype jsnum = NaN | Num rat | PosInf | NegInf

text \<open>\<open>a <= 0\<close> and \<open>a > b\<close> on numbers; every comparison with \<open>NaN\<close> is false.\<close>

fun num_le_zero :: "jsnum \<Rightarrow> bool" where
  "num_le_zero NaN = False"
| "num_le_zero (Num q) = (q \<le> 0)"
| "num_le_zero PosInf = False"
| "num_le_zero NegInf = True"

fun num_gt :: "jsnum \<Rightarrow> rat \<Rightarrow> bool" where
  "num_gt NaN b = False"
| "num_gt (Num q) b = (q > b)"
| "num_gt PosInf b = True"
| "num_gt NegInf b = False"

text \<open>Strict equality \<open>===\<close> on numbers: \<open>NaN\<close> is not equal to itself.\<close>

definition num_eq :: "jsnum \<Rightarrow> jsnum \<Rightarrow> bool" where
  "num_eq a b = (a \<noteq> NaN \<and> a = b)"

section \<open>The record model\<close>

text \<open>The interface \<open>Expense\<close> of \<open>ExpenseContext.tsx\<close>. The field \<open>id\<close> is named
  \<open>eid\<close> here.\<close>

record expense =
  eid :: string
  amount :: jsnum
  category :: string
  description :: string
  date :: string

section \<open>Stored documents and the storage adapter\<close>

text \<open>
  A value of the type \<open>any\<close>, as \<open>JSON.parse\<close> delivers it: \<open>undefined\<close> (a property
  that is missing), \<open>null\<close>, a boolean, a number, a string, or an array or object, which
  is kept as the string \<open>String(v)\<close> that stands for it in a template or a \<open>Date\<close>.
\<close>

datatype jval = JUndefined | JNull | JBool bool | JNum jsnum | JStr string | JObject string

text \<open>An element of the array \<open>expenses\<close> of a backup file that is an object: the five
  properties the code reads, each of any type.\<close>

record any_expense =
  any_id :: jval
  any_amount :: jval
  any_category :: jval
  any_description :: jval
  any_date :: jval

text \<open>The property \<open>expenses\<close> of a backup file: a value the test \<open>!backupFile.expenses\<close>
  takes for absent (\<open>undefined\<close>, \<open>null\<close> and the other falsy values), a truthy value
  that is not an array, or an array, whose elements are objects or \<open>null\<close> (\<open>None\<close>).\<close>

datatype jarray = NoValue | NotAnArray | Array "any_expense option list"

text \<open>A record of the declared type \<open>Expense\<close> as the values it consists of, and the
  reading of an element as an \<open>Expense\<close> is in section ``The backup manager''.\<close>

definition of_expense :: "expense \<Rightarrow> any_expense" where
  "of_expense e =
     \<lparr>any_id = JStr (eid e), any_amount = JNum (amount e), any_category = JStr (category e),
      any_description = JStr (description e), any_date = JStr (date e)\<rparr>"

text \<open>The interfaces \<open>BackupMetadata\<close>, \<open>BackupFile\<close> and \<open>BackupSchedule\<close> of
  \<open>backup-manager.tsx\<close>. A \<open>metadata\<close> section that is absent is \<open>None\<close>.\<close>

record date_range =
  earliest :: string
  latest :: string

record backup_metadata =
  version :: string
  md_username :: string
  createdAt :: string
  expenseCount :: nat
  totalAmount :: jval
  dateRange :: date_range
  categories :: "string list"
  checksum :: string

record backup_file =
  metadata :: "backup_metadata option"
  expenses :: jarray
  format :: string

datatype frequency = Daily | Weekly | Monthly

record backup_schedule =
  enabled :: bool
  frequency :: frequency
  lastBackup :: "string option"
  nextBackup :: "string option"
  retentionDays :: int

text \<open>The object \<open>saveExpenses\<close> stores under the key \<open>csv-metadata-...\<close>.\<close>

record csv_metadata =
  meta_version :: string
  meta_username :: string
  lastSaved :: string
  meta_expenseCount :: nat
  meta_checksum :: string

text \<open>
  \<open>localStorage\<close> maps keys to strings. A stored string is kept here either as
  \<open>Text s\<close>, a text \<open>s\<close> that \<open>JSON.parse\<close> rejects (a CSV payload, a corrupt entry,
  the empty string), or as \<open>Json d\<close>, the text \<open>JSON.stringify(d)\<close> of the document \<open>d\<close>.
\<close>

datatype jdoc = BackupDoc backup_file | MetaDoc csv_metadata | ScheduleDoc backup_schedule

datatype item = Text string | Json jdoc

text \<open>
  What \<open>JSON.parse(JSON.stringify(v))\<close> gives for a value: JSON text has no \<open>NaN\<close> and
  no infinity, \<open>JSON.stringify\<close> writes \<open>null\<close> for them, and \<open>JSON.parse\<close> reads
  \<open>null\<close> back. An array element that is \<open>null\<close> or \<open>undefined\<close> is \<open>None\<close> on both
  sides.
\<close>

fun json_value :: "jval \<Rightarrow> jval" where
  "json_value (JNum NaN) = JNull"
| "json_value (JNum PosInf) = JNull"
| "json_value (JNum NegInf) = JNull"
| "json_value v = v"

definition json_expense_image :: "any_expense \<Rightarrow> any_expense" where
  "json_expense_image x =
     \<lparr>any_id = json_value (any_id x), any_amount = json_value (any_amount x),
      any_category = json_value (any_category x), any_description = json_value (any_description x),
      any_date = json_value (any_date x)\<rparr>"

fun json_array_image :: "jarray \<Rightarrow> jarray" where
  "json_array_image (Array xs) = Array (map (map_option json_expense_image) xs)"
| "json_array_image NoValue = NoValue"
| "json_array_image NotAnArray = NotAnArray"

definition json_backup_image :: "backup_file \<Rightarrow> backup_file" where
  "json_backup_image b =
     \<lparr>metadata = map_option (\<lambda>md. md\<lparr>totalAmount := json_value (totalAmount md)\<rparr>) (metadata b),
      expenses = json_array_image (expenses b),
      format = format b\<rparr>"

text \<open>\<open>JSON.parse\<close> of a stored string: \<open>None\<close> when it throws, and for the text of a
  document the document as JSON text can hold it.\<close>

fun JSON_parse :: "item \<Rightarrow> jdoc option" where
  "JSON_parse (Text s) = None"
| "JSON_parse (Json (BackupDoc b)) = Some (BackupDoc (json_backup_image b))"
| "JSON_parse (Json (MetaDoc m)) = Some (MetaDoc m)"
| "JSON_parse (Json (ScheduleDoc sc)) = Some (ScheduleDoc sc)"

text \<open>
  The parts of the JavaScript runtime the core calls and that are not part of the
  repository: \<open>parseFloat\<close>, \<open>Number.prototype.toString\<close>, the \<open>Date\<close> parser
  (\<open>new Date(s).getTime()\<close>, \<open>None\<close> for an invalid date), \<open>Date.prototype.toISOString\<close>,
  \<open>crypto.randomUUID\<close> (one fresh value per row index), \<open>JSON.stringify\<close> of the
  value of \<open>expenses\<close>, \<open>JSON.stringify\<close> of a stored document, and the calendar step
  \<open>d.setMonth(d.getMonth() + 1)\<close> on a time in milliseconds. Every function of the
  model takes them as the parameter \<open>env\<close>. The clock is passed explicitly: one reading
  \<open>now\<close> for an operation, and a second one where the source derives a storage key from
  a later reading.
\<close>

record js_env =
  parseFloat :: "string \<Rightarrow> jsnum"
  numToString :: "jsnum \<Rightarrow> string"
  parseDate :: "string \<Rightarrow> int option"
  toISOString :: "int \<Rightarrow> string"
  randomUUID :: "nat \<Rightarrow> string"
  stringifyExpenses :: "jarray \<Rightarrow> string"
  stringifyDoc :: "jdoc \<Rightarrow> string"
  addMonth :: "int \<Rightarrow> int"

text \<open>The string \<open>localStorage.getItem\<close> returns for a stored item.\<close>

fun item_text :: "js_env \<Rightarrow> item \<Rightarrow> string" where
  "item_text env (Text s) = s"
| "item_text env (Json d) = stringifyDoc env d"

text \<open>The test \<open>if (s)\<close> on a stored string: every string but the empty one passes,
  and a JSON text is never empty.\<close>

fun truthy :: "item \<Rightarrow> bool" where
  "truthy (Text s) = (s \<noteq> [])"
| "truthy (Json d) = True"

text \<open>
  The store is an association list with distinct keys, in the order \<open>localStorage.key(i)\<close>
  enumerates them: \<open>setItem\<close> overwrites the value of a key that exists and adds a new
  key otherwise; \<open>removeItem\<close> drops the key.
\<close>

type_synonym storage = "(string \<times> item) list"

definition getItem :: "storage \<Rightarrow> string \<Rightarrow> item option" where
  "getItem store k = map_of store k"

fun setItem :: "storage \<Rightarrow> string \<Rightarrow> item \<Rightarrow> storage" where
  "setItem [] k v = [(k, v)]"
| "setItem (p # ps) k v = (if fst p = k then (k, v) # ps else p # setItem ps k v)"

definition removeItem :: "storage \<Rightarrow> string \<Rightarrow> storage" where
  "removeItem store k = filter (\<lambda>p. fst p \<noteq> k) store"

datatype error = Error string

section \<open>The integrity layer\<close>

text \<open>
  \<open>calculateChecksum\<close>, the same in both classes. The bitwise operators \<open><<\<close> and
  \<open>&\<close> work on the low 32 bits of a number read as a signed integer (\<open>to_int32\<close>);
  subtraction and addition are exact. The result is \<open>hash.toString(16)\<close>.
\<close>

definition to_int32 :: "int \<Rightarrow> int" where
  "to_int32 x = (x + 2147483648) mod 4294967296 - 2147483648"

definition hex_digit :: "nat \<Rightarrow> char" where
  "hex_digit d = ''0123456789abcdef'' ! d"

fun show_hex :: "nat \<Rightarrow> string" where
  "show_hex n = (if n < 16 then [hex_digit n] else show_hex (n div 16) @ [hex_digit (n mod 16)])"

declare show_hex.simps [simp del]

definition toString16 :: "int \<Rightarrow> string" where
  "toString16 i = (if i < 0 then CHR ''-'' # show_hex (nat (- i)) else show_hex (nat i))"

definition hash_step :: "int \<Rightarrow> char \<Rightarrow> int" where
  "hash_step hash c = to_int32 ((to_int32 (hash * 32) - hash) + of_char c)"

definition calculateChecksum :: "string \<Rightarrow> string" where
  "calculateChecksum content = toString16 (foldl hash_step 0 content)"

section \<open>The serializer: \<open>CSVDataManager\<close>\<close>

definition CSV_VERSION :: string where
  "CSV_VERSION = ''2.0''"

definition getFileName :: "string \<Rightarrow> string" where
  "getFileName username = ''pak-kharcha-'' @ toLowerCase username @ ''-expenses.csv''"

definition validCategories :: "string list" where
  "validCategories =
     [''Food & Groceries'', ''Transportation'', ''Utilities'', ''Housing'', ''Healthcare'',
      ''Education'', ''Entertainment'', ''Shopping'', ''Charity/Zakat'', ''Mobile/Internet'',
      ''Family Support'', ''Debt Payment'', ''Miscellaneous'']"

text \<open>\<open>CSVDataManager.validateExpense\<close>: the list of error messages; the record is
  valid when the list is empty. \<open>now\<close> is the value of \<open>new Date()\<close>.\<close>

definition validateExpense :: "js_env \<Rightarrow> int \<Rightarrow> expense \<Rightarrow> string list" where
  "validateExpense env now e =
     (if eid e = [] then [''Invalid or missing ID''] else []) @
     (if num_le_zero (amount e) \<or> num_gt (amount e) 10000000
      then [''Amount must be a positive number between 1 and 10,000,000''] else []) @
     (if category e = [] \<or> category e \<notin> set validCategories
      then [''Invalid category. Must be one of: '' @ join '', '' validCategories] else []) @
     (if description e = [] \<or> length (description e) < 2
      then [''Description must be at least 2 characters long''] else []) @
     (if description e \<noteq> [] \<and> length (description e) > 200
      then [''Description cannot exceed 200 characters''] else []) @
     (if date e = [] then [''Invalid or missing date'']
      else (case parseDate env (date e) of
              None \<Rightarrow> [''Invalid date format'']
            | Some t \<Rightarrow> if t > now then [''Date cannot be in the future''] else []))"

definition isValid :: "js_env \<Rightarrow> int \<Rightarrow> expense \<Rightarrow> bool" where
  "isValid env now e = (validateExpense env now e = [])"

text \<open>\<open>escapeCSVField\<close> and \<open>expenseToCSVRow\<close>.\<close>

fun double_quotes :: "string \<Rightarrow> string" where
  "double_quotes [] = []"
| "double_quotes (c # cs) = (if c = QUOTE then QUOTE # QUOTE # double_quotes cs else c # double_quotes cs)"

definition escapeCSVField :: "string \<Rightarrow> string" where
  "escapeCSVField field =
     (if COMMA \<in> set field \<or> QUOTE \<in> set field \<or> LF \<in> set field
      then [QUOTE] @ double_quotes field @ [QUOTE] else field)"

definition expenseToCSVRow :: "js_env \<Rightarrow> expense \<Rightarrow> string" where
  "expenseToCSVRow env e =
     join [COMMA]
       [escapeCSVField (eid e), numToString env (amount e), escapeCSVField (category e),
        escapeCSVField (description e), escapeCSVField (date e)]"

text \<open>The quote-aware tokenizer of \<open>csvRowToExpense\<close>: the remaining characters, the
  field being built and the \<open>inQuotes\<close> flag.\<close>

fun tokenize :: "string \<Rightarrow> string \<Rightarrow> bool \<Rightarrow> string list" where
  "tokenize [] current inQuotes = [trim current]"
| "tokenize (c # cs) current inQuotes =
     (if c = QUOTE then
        (case cs of
           c' # cs' \<Rightarrow>
             if inQuotes \<and> c' = QUOTE then tokenize cs' (current @ [QUOTE]) inQuotes
             else tokenize cs current (\<not> inQuotes)
         | [] \<Rightarrow> tokenize cs current (\<not> inQuotes))
      else if c = COMMA \<and> \<not> inQuotes then trim current # tokenize cs [] inQuotes
      else tokenize cs (current @ [c]) inQuotes)"

declare tokenize.simps(2) [simp del]

text \<open>\<open>csvRowToExpense\<close>: the parsed record or \<open>None\<close>, and the error messages.\<close>

definition csvRowToExpense :: "js_env \<Rightarrow> int \<Rightarrow> string \<Rightarrow> nat \<Rightarrow> expense option \<times> string list" where
  "csvRowToExpense env now row rowIndex =
     (case tokenize row [] False of
        [id', amountStr, category', description', date'] \<Rightarrow>
          (let amount' = parseFloat env amountStr;
               errors = (if amount' = NaN
                         then [''Row '' @ show_nat rowIndex @ '': Invalid amount '' @ [QUOTE] @ amountStr @ [QUOTE]]
                         else []);
               e = \<lparr>eid = (if id' = [] then randomUUID env rowIndex else id'),
                    amount = amount', category = category',
                    description = description', date = date'\<rparr>;
               validation = validateExpense env now e
           in if validation \<noteq> []
              then (None, errors @ [''Row '' @ show_nat rowIndex @ '': '' @ join '', '' validation])
              else (Some e, []))
      | fs \<Rightarrow>
          (None, [''Row '' @ show_nat rowIndex @ '': Expected 5 fields, got '' @ show_nat (length fs)]))"

text \<open>\<open>saveExpenses\<close>: the store after the three writes, or the error it throws.
  \<open>now\<close> is the clock at \<open>new Date().toISOString()\<close>. The argument is an array by its
  type, so only the test of \<open>username\<close> can fail.\<close>

definition headerLines :: "js_env \<Rightarrow> int \<Rightarrow> string \<Rightarrow> nat \<Rightarrow> string list" where
  "headerLines env now username n =
     [''# Pak-Kharcha Expense Data Export'',
      ''# Version: '' @ CSV_VERSION,
      ''# User: '' @ username,
      ''# Export Date: '' @ toISOString env now,
      ''# Total Expenses: '' @ show_nat n,
      ''#'',
      ''id,amount,category,description,date'']"

definition csvHeader :: "js_env \<Rightarrow> int \<Rightarrow> string \<Rightarrow> nat \<Rightarrow> string" where
  "csvHeader env now username n = join [LF] (headerLines env now username n) @ [LF]"

definition csvContent :: "js_env \<Rightarrow> int \<Rightarrow> string \<Rightarrow> expense list \<Rightarrow> string" where
  "csvContent env now username es =
     csvHeader env now username (length es) @ join [LF] (map (expenseToCSVRow env) es)"

definition saveExpenses :: "js_env \<Rightarrow> int \<Rightarrow> string \<Rightarrow> expense list \<Rightarrow> storage \<Rightarrow> error + storage" where
  "saveExpenses env now username es store =
     (if username = [] then Inl (Error ''Failed to save data: Invalid username or expenses data'')
      else
        let fileName = getFileName username;
            content = csvContent env now username es;
            storageKey = ''csv-'' @ fileName;
            backupKey = ''csv-backup-'' @ fileName;
            store1 = (case getItem store storageKey of
                        None \<Rightarrow> store
                      | Some existingData \<Rightarrow>
                          if truthy existingData then setItem store backupKey existingData
                          else store);
            store2 = setItem store1 storageKey (Text content);
            store3 = setItem store2 (''csv-metadata-'' @ fileName)
                       (Json (MetaDoc \<lparr>meta_version = CSV_VERSION, meta_username = username,
                                       lastSaved = toISOString env now,
                                       meta_expenseCount = length es,
                                       meta_checksum = calculateChecksum content\<rparr>))
        in Inr store3)"

text \<open>The \<open>for\<close> loop with \<open>break\<close> that looks for the column-header line: the index
  after the first line that satisfies \<open>p\<close>, and \<open>0\<close> when there is none.\<close>

fun findDataStart :: "(string \<Rightarrow> bool) \<Rightarrow> string list \<Rightarrow> nat \<Rightarrow> nat" where
  "findDataStart p [] i = 0"
| "findDataStart p (l # ls) i = (if p l then i + 1 else findDataStart p ls (i + 1))"

text \<open>The row loop of \<open>loadExpenses\<close>: \<open>ls\<close> are the lines from index \<open>i\<close> on, the
  accumulator holds \<open>expenses\<close> and \<open>errors\<close>.\<close>

fun loadRows :: "js_env \<Rightarrow> int \<Rightarrow> string list \<Rightarrow> nat \<Rightarrow> expense list \<times> string list
                 \<Rightarrow> expense list \<times> string list" where
  "loadRows env now [] i acc = acc"
| "loadRows env now (l # ls) i (es, errs) =
     (let line = trim l
      in if line \<noteq> [] \<and> \<not> startsWith line [HASH]
         then (case csvRowToExpense env now line (i + 1) of
                 (Some e, errs') \<Rightarrow> loadRows env now ls (i + 1) (es @ [e], errs @ errs')
               | (None, errs') \<Rightarrow> loadRows env now ls (i + 1) (es, errs @ errs'))
         else loadRows env now ls (i + 1) (es, errs))"

text \<open>The integrity check of \<open>loadExpenses\<close>: the warnings it logs.\<close>

fun doc_checksum :: "jdoc \<Rightarrow> string" where
  "doc_checksum (MetaDoc m) = meta_checksum m"
| "doc_checksum (BackupDoc b) = []"
| "doc_checksum (ScheduleDoc s) = []"

definition verifyIntegrity :: "js_env \<Rightarrow> storage \<Rightarrow> string \<Rightarrow> string \<Rightarrow> string list" where
  "verifyIntegrity env store fileName content =
     (case getItem store (''csv-metadata-'' @ fileName) of
        None \<Rightarrow> []
      | Some m \<Rightarrow>
          if \<not> truthy m then []
          else (case JSON_parse m of
                  None \<Rightarrow> [''Failed to verify data integrity:'']
                | Some meta \<Rightarrow>
                    if doc_checksum meta \<noteq> [] \<and> doc_checksum meta \<noteq> calculateChecksum content
                    then [''Data integrity check failed - checksum mismatch'']
                    else []))"

text \<open>\<open>loadExpenses\<close>: the records and the warnings logged, or the error thrown.
  The column-header line is the first line with \<open>lines[i].includes('id,amount,category')\<close>.\<close>

definition signature_line :: "string \<Rightarrow> bool" where
  "signature_line l = includes_str l ''id,amount,category''"

definition loadExpenses :: "js_env \<Rightarrow> int \<Rightarrow> string \<Rightarrow> storage \<Rightarrow> error + (expense list \<times> string list)" where
  "loadExpenses env now username store =
     (if username = [] then Inl (Error ''Failed to load data: Username is required'')
      else
        let fileName = getFileName username
        in case getItem store (''csv-'' @ fileName) of
             None \<Rightarrow> Inr ([], [])
           | Some it \<Rightarrow>
               let content = item_text env it
               in if content = [] then Inr ([], [])
                  else
                    let warnings = verifyIntegrity env store fileName content;
                        lines = split LF content;
                        dataStartIndex = findDataStart signature_line lines 0;
                        (es, errs) = loadRows env now (drop dataStartIndex lines) dataStartIndex ([], [])
                    in Inr (es, warnings @ (if errs \<noteq> [] then [''CSV parsing errors:''] else [])))"

text \<open>The interface \<open>CSVImportResult\<close> and the \<open>File\<close> handed to \<open>importUserData\<close>:
  its name and its text.\<close>

record import_result =
  success :: bool
  importedCount :: nat
  skippedCount :: nat
  errors :: "string list"

record js_file =
  file_name :: string
  file_text :: string

text \<open>\<open>file.size\<close>, the length of the file in bytes: one byte for each character.\<close>

definition file_size :: "js_file \<Rightarrow> nat" where
  "file_size f = length (file_text f)"

text \<open>The duplicate test of \<open>importUserData\<close>.\<close>

definition isDuplicate :: "expense list \<Rightarrow> expense \<Rightarrow> bool" where
  "isDuplicate es e =
     list_ex (\<lambda>existing.
        eid existing = eid e \<or>
        (num_eq (amount existing) (amount e) \<and> category existing = category e \<and>
         description existing = description e \<and> date existing = date e)) es"

text \<open>The state of the row loop of \<open>importUserData\<close>.\<close>

record import_state =
  st_expenses :: "expense list"
  st_importedCount :: nat
  st_skippedCount :: nat
  st_errors :: "string list"

fun importRows :: "js_env \<Rightarrow> int \<Rightarrow> string list \<Rightarrow> nat \<Rightarrow> import_state \<Rightarrow> import_state" where
  "importRows env now [] i st = st"
| "importRows env now (l # ls) i st =
     (let line = trim l
      in if line \<noteq> [] \<and> \<not> startsWith line [HASH]
         then (case csvRowToExpense env now line (i + 1) of
                 (Some e, errs') \<Rightarrow>
                   if \<not> isDuplicate (st_expenses st) e
                   then importRows env now ls (i + 1)
                          (st\<lparr>st_expenses := st_expenses st @ [e],
                              st_importedCount := st_importedCount st + 1\<rparr>)
                   else importRows env now ls (i + 1)
                          (st\<lparr>st_skippedCount := st_skippedCount st + 1,
                              st_errors := st_errors st @
                                [''Row '' @ show_nat (i + 1) @ '': Duplicate expense skipped'']\<rparr>)
               | (None, errs') \<Rightarrow>
                   importRows env now ls (i + 1)
                     (st\<lparr>st_skippedCount := st_skippedCount st + 1,
                         st_errors := st_errors st @ errs'\<rparr>))
         else importRows env now ls (i + 1) st)"

definition isHeaderLine :: "string \<Rightarrow> bool" where
  "isHeaderLine l =
     (let line = toLowerCase (trim l)
      in includes_str line ''id'' \<and> includes_str line ''amount'' \<and> includes_str line ''category'')"

definition import_failure :: "string \<Rightarrow> import_result" where
  "import_failure msg = \<lparr>success = False, importedCount = 0, skippedCount = 0, errors = [msg]\<rparr>"

text \<open>\<open>importUserData\<close>: the result and the store afterwards. Every \<open>throw\<close> of the body
  is caught by its own \<open>catch\<close>, which returns the failure result.\<close>

definition importUserData :: "js_env \<Rightarrow> int \<Rightarrow> string \<Rightarrow> js_file \<Rightarrow> storage \<Rightarrow> import_result \<times> storage" where
  "importUserData env now username f store =
     (if \<not> endsWith (toLowerCase (file_name f)) ''.csv''
      then (import_failure ''File must be a CSV file'', store)
      else if file_size f > 5 * 1024 * 1024
      then (import_failure ''File size too large. Maximum size is 5MB.'', store)
      else if trim (file_text f) = []
      then (import_failure ''File is empty'', store)
      else
        let lines = split LF (file_text f);
            dataStartIndex = findDataStart isHeaderLine lines 0
        in if dataStartIndex = 0
           then (import_failure ''Invalid CSV format: Header row not found'', store)
           else
             let st = importRows env now (drop dataStartIndex lines) dataStartIndex
                        \<lparr>st_expenses = [], st_importedCount = 0, st_skippedCount = 0, st_errors = []\<rparr>
             in if st_expenses st = []
                then (import_failure ''No valid expenses found in the file'', store)
                else (case saveExpenses env now username (st_expenses st) store of
                        Inl (Error msg) \<Rightarrow> (import_failure msg, store)
                      | Inr store' \<Rightarrow>
                          (\<lparr>success = True, importedCount = st_importedCount st,
                            skippedCount = st_skippedCount st, errors = st_errors st\<rparr>, store')))"

section \<open>The backup manager: \<open>BackupManager\<close>\<close>

definition BACKUP_VERSION :: string where
  "BACKUP_VERSION = ''1.0''"

definition BACKUP_PREFIX :: string where
  "BACKUP_PREFIX = ''pak-kharcha-backup''"

definition SCHEDULE_KEY :: string where
  "SCHEDULE_KEY = ''backup-schedule''"

text \<open>
  The tests the code makes on a value of any type. \<open>!v\<close> is the negation of
  \<open>js_truthy\<close>; \<open>typeof v === 'string'\<close> is \<open>is_string\<close> and \<open>typeof v === 'number'\<close> the
  case \<open>JNum\<close>; \<open>String(v)\<close>, which a template and \<open>escapeCSVField\<close> apply, is
  \<open>js_String\<close>.
\<close>

fun is_string :: "jval \<Rightarrow> bool" where
  "is_string (JStr s) = True"
| "is_string v = False"

fun js_truthy :: "jval \<Rightarrow> bool" where
  "js_truthy JUndefined = False"
| "js_truthy JNull = False"
| "js_truthy (JBool b) = b"
| "js_truthy (JNum a) = (a \<noteq> NaN \<and> a \<noteq> Num 0)"
| "js_truthy (JStr s) = (s \<noteq> [])"
| "js_truthy (JObject s) = True"

fun js_String :: "js_env \<Rightarrow> jval \<Rightarrow> string" where
  "js_String env JUndefined = ''undefined''"
| "js_String env JNull = ''null''"
| "js_String env (JBool b) = (if b then ''true'' else ''false'')"
| "js_String env (JNum a) = numToString env a"
| "js_String env (JStr s) = s"
| "js_String env (JObject s) = s"

text \<open>
  \<open>!isNaN(new Date(v).getTime())\<close>: a string is parsed, and so is the string of an
  array or object; a number is a time value when it is within 8.64e15 milliseconds of
  the epoch; \<open>true\<close>, \<open>false\<close> and \<open>null\<close> convert to the numbers 1, 0 and 0, and
  \<open>undefined\<close> to \<open>NaN\<close>.
\<close>

fun date_valid :: "js_env \<Rightarrow> jval \<Rightarrow> bool" where
  "date_valid env JUndefined = False"
| "date_valid env JNull = True"
| "date_valid env (JBool b) = True"
| "date_valid env (JNum (Num q)) = (\<bar>q\<bar> \<le> 8640000000000000)"
| "date_valid env (JNum a) = False"
| "date_valid env (JStr s) = (parseDate env s \<noteq> None)"
| "date_valid env (JObject s) = (parseDate env s \<noteq> None)"

text \<open>The message of the \<open>TypeError\<close> that reading the property \<open>p\<close> of \<open>null\<close> or
  \<open>undefined\<close> throws is the engine's.\<close>

definition TypeError_reading :: "string \<Rightarrow> string \<Rightarrow> string" where
  "TypeError_reading v p =
     ''Cannot read properties of '' @ v @ '' (reading '' @ [CHR 0x27] @ p @ [CHR 0x27] @ '')''"

text \<open>
  \<open>BackupManager.validateExpense\<close>: it throws at the first test that fails. The argument
  is an element of the parsed array: \<open>None\<close> is \<open>null\<close>, where reading \<open>expense.id\<close>
  throws; an element that is a number, a string or a boolean has none of the five
  properties and is the object whose five properties are \<open>undefined\<close>.
\<close>

definition BackupManager_validateExpense :: "js_env \<Rightarrow> any_expense option \<Rightarrow> error + unit" where
  "BackupManager_validateExpense env x =
     (case x of
        None \<Rightarrow> Inl (Error (TypeError_reading ''null'' ''id''))
      | Some e \<Rightarrow>
          if \<not> js_truthy (any_id e) \<or> \<not> is_string (any_id e)
          then Inl (Error ''Invalid expense ID'')
          else if (case any_amount e of JNum a \<Rightarrow> num_le_zero a | other \<Rightarrow> True)
          then Inl (Error ''Invalid expense amount'')
          else if \<not> js_truthy (any_category e) \<or> \<not> is_string (any_category e)
          then Inl (Error ''Invalid expense category'')
          else if \<not> js_truthy (any_description e) \<or> \<not> is_string (any_description e)
          then Inl (Error ''Invalid expense description'')
          else if \<not> js_truthy (any_date e) \<or> \<not> date_valid env (any_date e)
          then Inl (Error ''Invalid expense date'')
          else Inr ())"

text \<open>The \<open>forEach\<close> of \<open>restoreFromBackup\<close>: \<open>index\<close> is the position of the record,
  the accumulator holds \<open>validExpenses\<close> and \<open>errors\<close>.\<close>

fun validateAll :: "js_env \<Rightarrow> any_expense option list \<Rightarrow> nat
                    \<Rightarrow> any_expense option list \<times> string list
                    \<Rightarrow> any_expense option list \<times> string list" where
  "validateAll env [] index acc = acc"
| "validateAll env (e # es) index (valid, errs) =
     (case BackupManager_validateExpense env e of
        Inr u \<Rightarrow> validateAll env es (index + 1) (valid @ [e], errs)
      | Inl (Error msg) \<Rightarrow>
          validateAll env es (index + 1)
            (valid, errs @ [''Expense '' @ show_nat (index + 1) @ '': '' @ msg]))"

text \<open>
  \<open>CSVDataManager.saveExpenses\<close> as the backup manager calls it, with a value that
  \<open>JSON.parse\<close> delivered where the signature says \<open>Expense[]\<close>. \<open>expenseToCSVRow\<close> reads
  \<open>expense.id\<close> first, which throws on \<open>null\<close>, renders the text fields with
  \<open>String(field)\<close>, and calls \<open>expense.amount.toString()\<close>, which throws when the amount
  is \<open>null\<close> or \<open>undefined\<close>. All rows are rendered before the first \<open>setItem\<close>, so an
  exception leaves the store as it was.
\<close>

definition anyToCSVRow :: "js_env \<Rightarrow> any_expense option \<Rightarrow> error + string" where
  "anyToCSVRow env x =
     (case x of
        None \<Rightarrow> Inl (Error (TypeError_reading ''null'' ''id''))
      | Some e \<Rightarrow>
          (case any_amount e of
             JNull \<Rightarrow> Inl (Error (TypeError_reading ''null'' ''toString''))
           | JUndefined \<Rightarrow> Inl (Error (TypeError_reading ''undefined'' ''toString''))
           | a \<Rightarrow>
               Inr (join [COMMA]
                      [escapeCSVField (js_String env (any_id e)), js_String env a,
                       escapeCSVField (js_String env (any_category e)),
                       escapeCSVField (js_String env (any_description e)),
                       escapeCSVField (js_String env (any_date e))])))"

fun anyRows :: "js_env \<Rightarrow> any_expense option list \<Rightarrow> error + string list" where
  "anyRows env [] = Inr []"
| "anyRows env (x # xs) =
     (case anyToCSVRow env x of
        Inl err \<Rightarrow> Inl err
      | Inr row \<Rightarrow> (case anyRows env xs of Inl err \<Rightarrow> Inl err | Inr rows \<Rightarrow> Inr (row # rows)))"

definition saveExpensesAny :: "js_env \<Rightarrow> int \<Rightarrow> string \<Rightarrow> jarray \<Rightarrow> storage \<Rightarrow> error + storage" where
  "saveExpensesAny env now username value store =
     (case value of
        Array xs \<Rightarrow>
          if username = [] then Inl (Error ''Failed to save data: Invalid username or expenses data'')
          else
            (case anyRows env xs of
               Inl (Error msg) \<Rightarrow> Inl (Error (''Failed to save data: '' @ msg))
             | Inr csvRows \<Rightarrow>
                 let fileName = getFileName username;
                     content = csvHeader env now username (length xs) @ join [LF] csvRows;
                     storageKey = ''csv-'' @ fileName;
                     backupKey = ''csv-backup-'' @ fileName;
                     store1 = (case getItem store storageKey of
                                 None \<Rightarrow> store
                               | Some existingData \<Rightarrow>
                                   if truthy existingData then setItem store backupKey existingData
                                   else store);
                     store2 = setItem store1 storageKey (Text content);
                     store3 = setItem store2 (''csv-metadata-'' @ fileName)
                                (Json (MetaDoc \<lparr>meta_version = CSV_VERSION, meta_username = username,
                                                lastSaved = toISOString env now,
                                                meta_expenseCount = length xs,
                                                meta_checksum = calculateChecksum content\<rparr>))
                 in Inr store3)
      | other \<Rightarrow> Inl (Error ''Failed to save data: Invalid username or expenses data''))"

text \<open>An element whose amount is a number, read as the \<open>Expense\<close> whose text fields are
  the strings \<open>String(field)\<close>: the record that \<open>expenseToCSVRow\<close> renders.\<close>

definition as_expense :: "js_env \<Rightarrow> any_expense \<Rightarrow> expense" where
  "as_expense env x =
     \<lparr>eid = js_String env (any_id x),
      amount = (case any_amount x of JNum a \<Rightarrow> a | other \<Rightarrow> NaN),
      category = js_String env (any_category x),
      description = js_String env (any_description x),
      date = js_String env (any_date x)\<rparr>"

record restore_result =
  restore_success :: bool
  restoredCount :: nat
  restore_errors :: "string list"
  restore_metadata :: "backup_metadata option"

definition restore_failure :: "string \<Rightarrow> restore_result" where
  "restore_failure msg =
     \<lparr>restore_success = False, restoredCount = 0, restore_errors = [msg], restore_metadata = None\<rparr>"

text \<open>The messages of the \<open>SyntaxError\<close> that \<open>JSON.parse\<close> throws and of the
  \<open>TypeError\<close> of calling \<open>forEach\<close> on a value that has none are the engine's.\<close>

definition JSON_SyntaxError :: string where
  "JSON_SyntaxError = ''Unexpected token in JSON''"

definition TypeError_forEach :: string where
  "TypeError_forEach = ''backupFile.expenses.forEach is not a function''"

text \<open>\<open>restoreFromBackup\<close>: the result, the store afterwards and the warnings logged.
  \<open>fname\<close> is \<open>file.name\<close> and \<open>content\<close> the text of the file.\<close>

definition restoreFromBackup ::
    "js_env \<Rightarrow> int \<Rightarrow> string \<Rightarrow> string \<Rightarrow> item \<Rightarrow> storage
      \<Rightarrow> restore_result \<times> storage \<times> string list" where
  "restoreFromBackup env now username fname content store =
     (if \<not> endsWith (toLowerCase fname) ''.json''
      then (restore_failure ''Backup files must be in JSON format'', store, [])
      else (case JSON_parse content of
              None \<Rightarrow> (restore_failure JSON_SyntaxError, store, [])
            | Some (MetaDoc m) \<Rightarrow> (restore_failure ''Invalid backup file format'', store, [])
            | Some (ScheduleDoc sc) \<Rightarrow> (restore_failure ''Invalid backup file format'', store, [])
            | Some (BackupDoc backupFile) \<Rightarrow>
                if format backupFile \<noteq> ''pak-kharcha-backup''
                then (restore_failure ''Invalid backup file format'', store, [])
                else (case (metadata backupFile, expenses backupFile) of
                        (None, es) \<Rightarrow>
                          (restore_failure ''Corrupted backup file - missing required sections'', store, [])
                      | (Some md, NoValue) \<Rightarrow>
                          (restore_failure ''Corrupted backup file - missing required sections'', store, [])
                      | (Some md, es) \<Rightarrow>
                          (let expectedChecksum = calculateChecksum (stringifyExpenses env es);
                               warnings = (if checksum md \<noteq> expectedChecksum
                                           then [''Backup checksum mismatch - data may be corrupted'']
                                           else [])
                           in case es of
                                Array xs \<Rightarrow>
                                  (let (validExpenses, errs) = validateAll env xs 0 ([], [])
                                   in if validExpenses = []
                                      then (restore_failure ''No valid expenses found in backup file'',
                                            store, warnings)
                                      else (case saveExpensesAny env now username (Array validExpenses) store of
                                              Inl (Error msg) \<Rightarrow> (restore_failure msg, store, warnings)
                                            | Inr store' \<Rightarrow>
                                                (\<lparr>restore_success = True,
                                                  restoredCount = length validExpenses,
                                                  restore_errors = errs,
                                                  restore_metadata = Some md\<rparr>, store', warnings)))
                              | other \<Rightarrow> (restore_failure TypeError_forEach, store, warnings)))))"

text \<open>\<open>new Date(s).getTime()\<close> inside a template literal: \<open>NaN\<close> for an invalid date.\<close>

definition getTime_text :: "js_env \<Rightarrow> string \<Rightarrow> string" where
  "getTime_text env s = (case parseDate env s of None \<Rightarrow> ''NaN'' | Some t \<Rightarrow> show_int t)"

text \<open>The comparator of \<open>getLocalBackups\<close>, \<open>getTime(b) - getTime(a)\<close>, is at most zero
  (\<open>a\<close> stays in front of \<open>b\<close>); a \<open>NaN\<close> result counts as zero. The sort is stable:
  an insertion sort that keeps equal elements in their order.\<close>

definition stays_before :: "js_env \<Rightarrow> backup_metadata \<Rightarrow> backup_metadata \<Rightarrow> bool" where
  "stays_before env a b =
     (case (parseDate env (createdAt a), parseDate env (createdAt b)) of
        (Some ta, Some tb) \<Rightarrow> tb - ta \<le> 0
      | (ta, tb) \<Rightarrow> True)"

fun insert_sorted :: "js_env \<Rightarrow> backup_metadata \<Rightarrow> backup_metadata list \<Rightarrow> backup_metadata list" where
  "insert_sorted env a [] = [a]"
| "insert_sorted env a (b # bs) =
     (if stays_before env a b then a # b # bs else b # insert_sorted env a bs)"

definition sort_newest_first :: "js_env \<Rightarrow> backup_metadata list \<Rightarrow> backup_metadata list" where
  "sort_newest_first env bs = foldr (insert_sorted env) bs []"

text \<open>The metadata of a stored entry as \<open>getLocalBackups\<close> reads it: nothing when the
  text does not parse or the parsed object has no \<open>metadata\<close>.\<close>

definition entry_metadata :: "item \<Rightarrow> backup_metadata option" where
  "entry_metadata v = (case JSON_parse v of Some (BackupDoc b) \<Rightarrow> metadata b | other \<Rightarrow> None)"

definition getLocalBackups :: "js_env \<Rightarrow> string \<Rightarrow> storage \<Rightarrow> backup_metadata list" where
  "getLocalBackups env username store =
     (let prefix = ''backup-'' @ username @ ''-'';
          backups = concat (map (\<lambda>(key, v).
                       if startsWith key prefix
                       then (case entry_metadata v of None \<Rightarrow> [] | Some md \<Rightarrow> [md])
                       else []) store)
      in sort_newest_first env backups)"

text \<open>\<open>storeLocalBackup\<close>; \<open>storedAt\<close> is the reading \<open>Date.now()\<close> of this function.\<close>

definition storeLocalBackup :: "js_env \<Rightarrow> int \<Rightarrow> string \<Rightarrow> backup_file \<Rightarrow> storage \<Rightarrow> storage" where
  "storeLocalBackup env storedAt username backup store =
     (let backupId = show_int storedAt;
          backupKey = ''backup-'' @ username @ ''-'' @ backupId;
          store1 = setItem store backupKey (Json (BackupDoc backup));
          backups = getLocalBackups env username store1
      in if length backups > 5
         then foldl (\<lambda>st b. removeItem st (''backup-'' @ username @ ''-'' @ getTime_text env (createdAt b)))
                store1 (drop 5 backups)
         else store1)"

text \<open>\<open>[...new Set(xs)]\<close>: the distinct elements in the order of their first occurrence.\<close>

fun distinct_first :: "string list \<Rightarrow> string list" where
  "distinct_first [] = []"
| "distinct_first (x # xs) = x # filter (\<lambda>y. y \<noteq> x) (distinct_first xs)"

text \<open>The sum of \<open>reduce\<close>: addition of JavaScript numbers.\<close>

fun num_add :: "jsnum \<Rightarrow> jsnum \<Rightarrow> jsnum" where
  "num_add (Num a) (Num b) = Num (a + b)"
| "num_add NaN b = NaN"
| "num_add a NaN = NaN"
| "num_add PosInf NegInf = NaN"
| "num_add NegInf PosInf = NaN"
| "num_add PosInf b = PosInf"
| "num_add a PosInf = PosInf"
| "num_add NegInf b = NegInf"
| "num_add a NegInf = NegInf"

text \<open>The smallest and the largest of the date strings, as \<open>sort()\<close> orders strings by
  their code units.\<close>

fun str_le :: "string \<Rightarrow> string \<Rightarrow> bool" where
  "str_le [] t = True"
| "str_le (c # cs) [] = False"
| "str_le (c # cs) (d # ds) =
     ((of_char c :: nat) < of_char d \<or> (c = d \<and> str_le cs ds))"

definition str_min :: "string list \<Rightarrow> string" where
  "str_min xs = foldl (\<lambda>m x. if str_le m x then m else x) (hd xs) (tl xs)"

definition str_max :: "string list \<Rightarrow> string" where
  "str_max xs = foldl (\<lambda>m x. if str_le x m then m else x) (hd xs) (tl xs)"

definition replace_colon_dot :: "string \<Rightarrow> string" where
  "replace_colon_dot s = map (\<lambda>c. if c = CHR '':'' \<or> c = CHR ''.'' then CHR ''-'' else c) s"

text \<open>\<open>createBackup\<close>: the file name and the store afterwards, or the error thrown.
  \<open>now\<close> is the clock at the two \<open>new Date()\<close> of the body, \<open>storedAt\<close> the later
  reading in \<open>storeLocalBackup\<close>. The download of the file is outside the model.\<close>

definition createBackup ::
    "js_env \<Rightarrow> int \<Rightarrow> int \<Rightarrow> string \<Rightarrow> expense list \<Rightarrow> storage \<Rightarrow> error + (string \<times> storage)" where
  "createBackup env now storedAt username es store =
     (if es = [] then Inl (Error ''Backup failed: No expenses to backup'')
      else
        let dates = map date es;
            md = \<lparr>version = BACKUP_VERSION, md_username = username,
                  createdAt = toISOString env now,
                  expenseCount = length es,
                  totalAmount = JNum (foldl (\<lambda>sum e. num_add sum (amount e)) (Num 0) es),
                  dateRange = \<lparr>earliest = str_min dates, latest = str_max dates\<rparr>,
                  categories = distinct_first (map category es),
                  checksum = calculateChecksum
                               (stringifyExpenses env (Array (map (Some \<circ> of_expense) es)))\<rparr>;
            backupFile = \<lparr>metadata = Some md, expenses = Array (map (Some \<circ> of_expense) es),
                          format = ''pak-kharcha-backup''\<rparr>;
            timestamp = replace_colon_dot (take 19 (toISOString env now));
            filename = BACKUP_PREFIX @ ''-'' @ username @ ''-'' @ timestamp @ ''.json''
        in Inr (filename, storeLocalBackup env storedAt username backupFile store))"

text \<open>\<open>restoreFromLocalBackup\<close>: \<open>True\<close> and the store after \<open>saveExpenses\<close>, or
  \<open>False\<close> and the store as it was when anything in the body throws: the entry is
  missing or empty, its text does not parse, or \<open>saveExpenses\<close> throws, on a value of
  \<open>backup.expenses\<close> that is no array or on an element whose row cannot be rendered.\<close>

definition restoreFromLocalBackup ::
    "js_env \<Rightarrow> int \<Rightarrow> string \<Rightarrow> string \<Rightarrow> storage \<Rightarrow> bool \<times> storage" where
  "restoreFromLocalBackup env now username backupId store =
     (let backupKey = ''backup-'' @ username @ ''-'' @ backupId
      in case getItem store backupKey of
           None \<Rightarrow> (False, store)
         | Some backupData \<Rightarrow>
             if \<not> truthy backupData then (False, store)
             else (case JSON_parse backupData of
                     Some (BackupDoc backup) \<Rightarrow>
                       (case saveExpensesAny env now username (expenses backup) store of
                          Inl err \<Rightarrow> (False, store)
                        | Inr store' \<Rightarrow> (True, store'))
                   | other \<Rightarrow> (False, store)))"

text \<open>\<open>cleanupOldBackups\<close>. The cutoff \<open>setDate(getDate() - retentionDays)\<close> is
  \<open>retentionDays\<close> days of 24 hours before \<open>now\<close>.\<close>

definition must_delete :: "js_env \<Rightarrow> int \<Rightarrow> item \<Rightarrow> bool" where
  "must_delete env cutoffDate v =
     (case JSON_parse v of
        None \<Rightarrow> True
      | Some (BackupDoc b) \<Rightarrow>
          (case metadata b of
             None \<Rightarrow> True
           | Some md \<Rightarrow>
               (case parseDate env (createdAt md) of
                  None \<Rightarrow> False
                | Some backupDate \<Rightarrow> backupDate < cutoffDate))
      | Some other \<Rightarrow> True)"

definition cleanupOldBackups :: "js_env \<Rightarrow> int \<Rightarrow> string \<Rightarrow> int \<Rightarrow> storage \<Rightarrow> storage" where
  "cleanupOldBackups env now username retention store =
     (let cutoffDate = now - retention * 86400000;
          prefix = ''backup-'' @ username @ ''-'';
          keysToDelete = map fst (filter (\<lambda>(key, v). startsWith key prefix \<and> must_delete env cutoffDate v) store)
      in foldl removeItem store keysToDelete)"

section \<open>The scheduler\<close>

text \<open>A pending \<open>setTimeout\<close> callback: the user whose \<open>performScheduledBackup\<close> it
  will run, and the delay. The source never cancels a timer.\<close>

type_synonym timers = "(string \<times> int) list"

definition calculateNextBackup :: "js_env \<Rightarrow> frequency \<Rightarrow> int \<Rightarrow> int" where
  "calculateNextBackup env freq now =
     (case freq of
        Daily \<Rightarrow> now + 86400000
      | Weekly \<Rightarrow> now + 7 * 86400000
      | Monthly \<Rightarrow> addMonth env now)"

definition scheduleNextBackup :: "js_env \<Rightarrow> int \<Rightarrow> string \<Rightarrow> backup_schedule \<Rightarrow> timers \<Rightarrow> timers" where
  "scheduleNextBackup env now username schedule pending =
     (let next = calculateNextBackup env (frequency schedule) now;
          timeUntilBackup = next - now
      in if timeUntilBackup > 0
         then pending @ [(username, min timeUntilBackup (24 * 60 * 60 * 1000))]
         else pending)"

definition setupAutoBackup ::
    "js_env \<Rightarrow> int \<Rightarrow> string \<Rightarrow> backup_schedule \<Rightarrow> storage \<times> timers \<Rightarrow> storage \<times> timers" where
  "setupAutoBackup env now username schedule state =
     (let scheduleKey = SCHEDULE_KEY @ ''-'' @ username;
          store1 = setItem (fst state) scheduleKey (Json (ScheduleDoc schedule))
      in if enabled schedule
         then (store1, scheduleNextBackup env now username schedule (snd state))
         else (store1, snd state))"

text \<open>\<open>getBackupSchedule\<close>: the parsed object, \<open>None\<close> for \<open>null\<close>.\<close>

definition getBackupSchedule :: "string \<Rightarrow> storage \<Rightarrow> jdoc option" where
  "getBackupSchedule username store =
     (case getItem store (SCHEDULE_KEY @ ''-'' @ username) of
        None \<Rightarrow> None
      | Some schedule \<Rightarrow> if truthy schedule then JSON_parse schedule else None)"

text \<open>\<open>performScheduledBackup\<close>, the callback of the timer: its result and the state
  afterwards. An object under the schedule key that is not a schedule is left as it is.\<close>

definition performScheduledBackup ::
    "js_env \<Rightarrow> int \<Rightarrow> int \<Rightarrow> string \<Rightarrow> storage \<times> timers \<Rightarrow> bool \<times> storage \<times> timers" where
  "performScheduledBackup env now storedAt username state =
     (case loadExpenses env now username (fst state) of
        Inl err \<Rightarrow> (False, state)
      | Inr (es, warnings) \<Rightarrow>
          if es = [] then (False, state)
          else (case createBackup env now storedAt username es (fst state) of
                  Inl err \<Rightarrow> (False, state)
                | Inr (filename, store1) \<Rightarrow>
                    (case getBackupSchedule username store1 of
                       Some (ScheduleDoc schedule) \<Rightarrow>
                         (True,
                          setupAutoBackup env now username
                            (schedule\<lparr>lastBackup := Some (toISOString env now),
                                      nextBackup := Some (toISOString env
                                        (calculateNextBackup env (frequency schedule) now))\<rparr>)
                            (store1, snd state))
                     | other \<Rightarrow> (True, (store1, snd state)))))"

section \<open>A reference runtime for the examples\<close>

text \<open>
  The theorems below hold for every runtime \<open>env\<close>. The examples evaluate the model in
  the runtime \<open>ref_env\<close>: decimal literals for \<open>parseFloat\<close>, plain decimal notation for
  \<open>toString\<close>, ISO-8601 dates in UTC (\<open>YYYY-MM-DD\<close> and \<open>YYYY-MM-DDTHH:MM:SS.mmmZ\<close>) for
  \<open>Date\<close>, and compact JSON text.
\<close>

definition digit_table :: "(char \<times> nat) list" where
  "digit_table = zip ''0123456789'' [0, 1, 2, 3, 4, 5, 6, 7, 8, 9]"

definition is_digit :: "char \<Rightarrow> bool" where
  "is_digit c = (map_of digit_table c \<noteq> None)"

definition digit_val :: "char \<Rightarrow> nat" where
  "digit_val c = (case map_of digit_table c of None \<Rightarrow> 0 | Some d \<Rightarrow> d)"

definition digits_val :: "string \<Rightarrow> nat" where
  "digits_val ds = foldl (\<lambda>n c. 10 * n + digit_val c) 0 ds"

definition ref_parseFloat :: "string \<Rightarrow> jsnum" where
  "ref_parseFloat s =
     (let s1 = dropWhile is_ws s;
          neg = (s1 \<noteq> [] \<and> hd s1 = CHR ''-'');
          s2 = (if s1 \<noteq> [] \<and> (hd s1 = CHR ''-'' \<or> hd s1 = CHR ''+'') then tl s1 else s1)
      in if startsWith s2 ''Infinity'' then (if neg then NegInf else PosInf)
         else
           let ip = takeWhile is_digit s2;
               r1 = dropWhile is_digit s2;
               dot = (r1 \<noteq> [] \<and> hd r1 = CHR ''.'');
               fp = (if dot then takeWhile is_digit (tl r1) else []);
               r2 = (if dot then dropWhile is_digit (tl r1) else r1);
               r3 = (if r2 \<noteq> [] \<and> (hd r2 = CHR ''e'' \<or> hd r2 = CHR ''E'') then tl r2 else []);
               eneg = (r3 \<noteq> [] \<and> hd r3 = CHR ''-'');
               r4 = (if r3 \<noteq> [] \<and> (hd r3 = CHR ''-'' \<or> hd r3 = CHR ''+'') then tl r3 else r3);
               ex = digits_val (takeWhile is_digit r4);
               m = (of_nat (digits_val ip) + of_nat (digits_val fp) / 10 ^ length fp :: rat);
               v = (if eneg then m / 10 ^ ex else m * 10 ^ ex)
           in if ip = [] \<and> fp = [] then NaN else Num (if neg then - v else v))"

fun frac_digits :: "nat \<Rightarrow> rat \<Rightarrow> string" where
  "frac_digits 0 r = []"
| "frac_digits (Suc k) r =
     (if r = 0 then []
      else let d = nat \<lfloor>r * 10\<rfloor> in digit_char d # frac_digits k (r * 10 - of_nat d))"

definition ref_numToString :: "jsnum \<Rightarrow> string" where
  "ref_numToString a =
     (case a of
        NaN \<Rightarrow> ''NaN''
      | PosInf \<Rightarrow> ''Infinity''
      | NegInf \<Rightarrow> ''-Infinity''
      | Num q \<Rightarrow>
          (let m = \<bar>q\<bar>; ip = nat \<lfloor>m\<rfloor>; fr = m - of_nat ip
           in (if q < 0 then ''-'' else []) @ show_nat ip @
              (if fr = 0 then [] else CHR ''.'' # frac_digits 20 fr)))"

definition days_from_civil :: "int \<Rightarrow> int \<Rightarrow> int \<Rightarrow> int" where
  "days_from_civil y m d =
     (let y' = (if m \<le> 2 then y - 1 else y);
          era = y' div 400;
          yoe = y' - era * 400;
          doy = (153 * (if m > 2 then m - 3 else m + 9) + 2) div 5 + d - 1;
          doe = yoe * 365 + yoe div 4 - yoe div 100 + doy
      in era * 146097 + doe - 719468)"

definition civil_from_days :: "int \<Rightarrow> int \<times> int \<times> int" where
  "civil_from_days z0 =
     (let z = z0 + 719468;
          era = z div 146097;
          doe = z - era * 146097;
          yoe = (doe - doe div 1460 + doe div 36524 - doe div 146096) div 365;
          doy = doe - (365 * yoe + yoe div 4 - yoe div 100);
          mp = (5 * doy + 2) div 153;
          d = doy - (153 * mp + 2) div 5 + 1;
          m = (if mp < 10 then mp + 3 else mp - 9)
      in (if m \<le> 2 then yoe + era * 400 + 1 else yoe + era * 400, m, d))"

definition pad :: "nat \<Rightarrow> int \<Rightarrow> string" where
  "pad w n = (let s = show_int n in replicate (w - length s) CHR ''0'' @ s)"

definition ref_toISOString :: "int \<Rightarrow> string" where
  "ref_toISOString t =
     (let ms = t mod 86400000
      in case civil_from_days (t div 86400000) of
           (y, m, d) \<Rightarrow>
             pad 4 y @ ''-'' @ pad 2 m @ ''-'' @ pad 2 d @ ''T'' @
             pad 2 (ms div 3600000) @ '':'' @ pad 2 (ms div 60000 mod 60) @ '':'' @
             pad 2 (ms div 1000 mod 60) @ ''.'' @ pad 3 (ms mod 1000) @ ''Z'')"

definition field_val :: "string \<Rightarrow> nat \<Rightarrow> nat \<Rightarrow> int" where
  "field_val s start len = int (digits_val (take len (drop start s)))"

definition ref_parseDate :: "string \<Rightarrow> int option" where
  "ref_parseDate s =
     (let full = (if length s = 10 then s @ ''T00:00:00.000Z'' else s);
          t = days_from_civil (field_val full 0 4) (field_val full 5 2) (field_val full 8 2) * 86400000
              + field_val full 11 2 * 3600000 + field_val full 14 2 * 60000
              + field_val full 17 2 * 1000 + field_val full 20 3
      in if ref_toISOString t = full then Some t else None)"

definition ref_addMonth :: "int \<Rightarrow> int" where
  "ref_addMonth t =
     (case civil_from_days (t div 86400000) of
        (y, m, d) \<Rightarrow>
          days_from_civil (if m = 12 then y + 1 else y) (if m = 12 then 1 else m + 1) d * 86400000
          + t mod 86400000)"

definition json_string :: "string \<Rightarrow> string" where
  "json_string s =
     [QUOTE] @ concat (map (\<lambda>c. if c = QUOTE \<or> c = CHR 0x5C then [CHR 0x5C, c]
                                 else if c = LF then [CHR 0x5C, CHR ''n''] else [c]) s) @ [QUOTE]"

definition json_number :: "jsnum \<Rightarrow> string" where
  "json_number a = (case a of Num q \<Rightarrow> ref_numToString a | other \<Rightarrow> ''null'')"

definition json_field :: "string \<Rightarrow> string \<Rightarrow> string" where
  "json_field k v = json_string k @ '':'' @ v"

definition json_object :: "string list \<Rightarrow> string" where
  "json_object fs = ''{'' @ join '','' fs @ ''}''"

definition json_array :: "string list \<Rightarrow> string" where
  "json_array xs = ''['' @ join '','' xs @ '']''"

text \<open>A property that is \<open>undefined\<close> is left out of the object. An array or object
  with the string \<open>s\<close> is written as the array \<open>[s]\<close>, which has that string.\<close>

fun json_property :: "string \<Rightarrow> jval \<Rightarrow> string list" where
  "json_property k JUndefined = []"
| "json_property k JNull = [json_field k ''null'']"
| "json_property k (JBool b) = [json_field k (if b then ''true'' else ''false'')]"
| "json_property k (JNum a) = [json_field k (json_number a)]"
| "json_property k (JStr s) = [json_field k (json_string s)]"
| "json_property k (JObject s) = [json_field k (json_array [json_string s])]"

definition json_expense :: "any_expense option \<Rightarrow> string" where
  "json_expense x =
     (case x of
        None \<Rightarrow> ''null''
      | Some e \<Rightarrow>
          json_object
            (json_property ''id'' (any_id e) @ json_property ''amount'' (any_amount e) @
             json_property ''category'' (any_category e) @
             json_property ''description'' (any_description e) @
             json_property ''date'' (any_date e)))"

fun ref_stringifyExpenses :: "jarray \<Rightarrow> string" where
  "ref_stringifyExpenses (Array xs) = json_array (map json_expense xs)"
| "ref_stringifyExpenses NoValue = ''null''"
| "ref_stringifyExpenses NotAnArray = ''{}''"

definition json_option :: "string option \<Rightarrow> string" where
  "json_option v = (case v of None \<Rightarrow> ''null'' | Some s \<Rightarrow> json_string s)"

definition json_metadata :: "backup_metadata \<Rightarrow> string" where
  "json_metadata md =
     json_object
       [json_field ''version'' (json_string (version md)),
        json_field ''username'' (json_string (md_username md)),
        json_field ''createdAt'' (json_string (createdAt md)),
        json_field ''expenseCount'' (show_nat (expenseCount md)),
        json_field ''totalAmount''
          (case totalAmount md of JNum a \<Rightarrow> json_number a | other \<Rightarrow> ''null''),
        json_field ''dateRange''
          (json_object [json_field ''earliest'' (json_string (earliest (dateRange md))),
                        json_field ''latest'' (json_string (latest (dateRange md)))]),
        json_field ''categories'' (json_array (map json_string (categories md))),
        json_field ''checksum'' (json_string (checksum md))]"

fun ref_stringifyDoc :: "jdoc \<Rightarrow> string" where
  "ref_stringifyDoc (BackupDoc b) =
     json_object
       ((case metadata b of None \<Rightarrow> [] | Some md \<Rightarrow> [json_field ''metadata'' (json_metadata md)]) @
        [json_field ''expenses'' (ref_stringifyExpenses (expenses b))] @
        [json_field ''format'' (json_string (format b))])"
| "ref_stringifyDoc (MetaDoc m) =
     json_object
       [json_field ''version'' (json_string (meta_version m)),
        json_field ''username'' (json_string (meta_username m)),
        json_field ''lastSaved'' (json_string (lastSaved m)),
        json_field ''expenseCount'' (show_nat (meta_expenseCount m)),
        json_field ''checksum'' (json_string (meta_checksum m))]"
| "ref_stringifyDoc (ScheduleDoc sc) =
     json_object
       [json_field ''enabled'' (if enabled sc then ''true'' else ''false''),
        json_field ''frequency''
          (json_string (case frequency sc of Daily \<Rightarrow> ''daily'' | Weekly \<Rightarrow> ''weekly'' | Monthly \<Rightarrow> ''monthly'')),
        json_field ''lastBackup'' (json_option (lastBackup sc)),
        json_field ''nextBackup'' (json_option (nextBackup sc)),
        json_field ''retentionDays'' (show_int (retentionDays sc))]"

definition ref_env :: js_env where
  "ref_env =
     \<lparr>parseFloat = ref_parseFloat, numToString = ref_numToString, parseDate = ref_parseDate,
      toISOString = ref_toISOString,
      randomUUID = (\<lambda>i. ''00000000-0000-4000-8000-'' @ pad 12 (int i)),
      stringifyExpenses = ref_stringifyExpenses, stringifyDoc = ref_stringifyDoc,
      addMonth = ref_addMonth\<rparr>"

section \<open>Notions used by the statements\<close>

text \<open>A text field survives a save and a reload when trimming leaves it as it is and it
  holds no line break; a number when it is printed without a delimiter, a quote or a line
  break and \<open>parseFloat\<close> reads the printed text back; a record when its \<open>id\<close>,
  \<open>description\<close> and \<open>date\<close> and its \<open>amount\<close> do and its row does not begin with
  the comment mark.\<close>

definition stable_text :: "string \<Rightarrow> bool" where
  "stable_text s = (trim s = s \<and> LF \<notin> set s)"

definition stable_number :: "js_env \<Rightarrow> jsnum \<Rightarrow> bool" where
  "stable_number env a =
     (parseFloat env (trim (numToString env a)) = a \<and>
      COMMA \<notin> set (numToString env a) \<and> QUOTE \<notin> set (numToString env a) \<and>
      LF \<notin> set (numToString env a))"

definition stable_record :: "js_env \<Rightarrow> expense \<Rightarrow> bool" where
  "stable_record env e =
     (stable_text (eid e) \<and> stable_text (description e) \<and> stable_text (date e) \<and>
      stable_number env (amount e) \<and> \<not> startsWith (escapeCSVField (eid e)) [HASH])"

text \<open>The lines \<open>saveExpenses\<close> writes after the column header: one row per record, and
  the single empty line that follows the header when there is no record.\<close>

definition row_lines :: "js_env \<Rightarrow> expense list \<Rightarrow> string list" where
  "row_lines env D = (if D = [] then [[]] else map (expenseToCSVRow env) D)"

text \<open>\<open>decode(encode(D))\<close>: \<open>saveExpenses\<close> at time \<open>t\<close> into a store, then
  \<open>loadExpenses\<close> at time \<open>now\<close> from the store that results; the records loaded.\<close>

definition roundTrip :: "js_env \<Rightarrow> int \<Rightarrow> int \<Rightarrow> string \<Rightarrow> storage \<Rightarrow> expense list \<Rightarrow> error + expense list" where
  "roundTrip env t now username store D =
     (case saveExpenses env t username D store of
        Inl err \<Rightarrow> Inl err
      | Inr store' \<Rightarrow>
          (case loadExpenses env now username store' of
             Inl err \<Rightarrow> Inl err
           | Inr (es, warnings) \<Rightarrow> Inr es))"

text \<open>The records \<open>loadExpenses\<close> returns, without the warnings it logs.\<close>

definition loaded_records :: "error + (expense list \<times> string list) \<Rightarrow> error + expense list" where
  "loaded_records r = (case r of Inl err \<Rightarrow> Inl err | Inr (es, warnings) \<Rightarrow> Inr es)"

text \<open>A backup file with the checksum of its metadata replaced.\<close>

definition with_checksum :: "backup_file \<Rightarrow> string \<Rightarrow> backup_file" where
  "with_checksum b c = b\<lparr>metadata := map_option (\<lambda>md. md\<lparr>checksum := c\<rparr>) (metadata b)\<rparr>"

text \<open>An element of the parsed array passes the validator of the restore path.\<close>

definition passes :: "js_env \<Rightarrow> any_expense option \<Rightarrow> bool" where
  "passes env x = (BackupManager_validateExpense env x = Inr ())"

text \<open>The elements that pass, in their order, read as \<open>Expense\<close> records.\<close>

definition committed :: "js_env \<Rightarrow> any_expense option list \<Rightarrow> expense list" where
  "committed env xs = map (as_expense env \<circ> the) (filter (passes env) xs)"

text \<open>An element that \<open>expenseToCSVRow\<close> renders as a record: an object whose amount is
  a number.\<close>

definition numeric :: "any_expense option \<Rightarrow> bool" where
  "numeric x = (case x of None \<Rightarrow> False | Some e \<Rightarrow> (case any_amount e of JNum a \<Rightarrow> True | other \<Rightarrow> False))"

text \<open>An element on which \<open>expenseToCSVRow\<close> throws: \<open>null\<close>, or an object whose amount
  is \<open>null\<close> or missing.\<close>

definition unprintable :: "any_expense option \<Rightarrow> bool" where
  "unprintable x =
     (case x of None \<Rightarrow> True | Some e \<Rightarrow> any_amount e = JNull \<or> any_amount e = JUndefined)"

text \<open>The messages \<open>restoreFromBackup\<close> collects: one for each record that fails, with its
  position counted from \<open>index + 1\<close>.\<close>

fun recordErrors :: "js_env \<Rightarrow> nat \<Rightarrow> any_expense option list \<Rightarrow> string list" where
  "recordErrors env index [] = []"
| "recordErrors env index (e # es) =
     (case BackupManager_validateExpense env e of
        Inl (Error msg) \<Rightarrow> (''Expense '' @ show_nat (index + 1) @ '': '' @ msg) # recordErrors env (index + 1) es
      | Inr u \<Rightarrow> recordErrors env (index + 1) es)"

text \<open>A backup file that \<open>restoreFromBackup\<close> accepts up to the validation of its records:
  the name ends in \<open>.json\<close>, the text parses, the format tag is right, the section
  \<open>metadata\<close> is present and \<open>expenses\<close> is an array, whose elements as parsed are
  \<open>xs\<close>.\<close>

definition wellformed_backup :: "string \<Rightarrow> item \<Rightarrow> any_expense option list \<Rightarrow> bool" where
  "wellformed_backup fname content xs =
     (endsWith (toLowerCase fname) ''.json'' \<and>
      (case JSON_parse content of
         Some (BackupDoc b) \<Rightarrow>
           format b = ''pak-kharcha-backup'' \<and> metadata b \<noteq> None \<and> expenses b = Array xs
       | other \<Rightarrow> False))"

text \<open>The elements of the array \<open>expenses\<close> of a stored snapshot as \<open>JSON.parse\<close>
  delivers them; \<open>None\<close> when the entry is no snapshot with such an array.\<close>

definition snapshot_records :: "item \<Rightarrow> any_expense option list option" where
  "snapshot_records v =
     (case JSON_parse v of
        Some (BackupDoc b) \<Rightarrow> (case expenses b of Array xs \<Rightarrow> Some xs | other \<Rightarrow> None)
      | other \<Rightarrow> None)"

text \<open>The text \<open>saveExpenses\<close> writes for a dataset, spelled out: the seven header lines,
  then one line per record with the five fields separated by commas.\<close>

definition dataset_text :: "js_env \<Rightarrow> int \<Rightarrow> string \<Rightarrow> expense list \<Rightarrow> string" where
  "dataset_text env now username es =
     ''# Pak-Kharcha Expense Data Export'' @ [LF] @
     ''# Version: 2.0'' @ [LF] @
     ''# User: '' @ username @ [LF] @
     ''# Export Date: '' @ toISOString env now @ [LF] @
     ''# Total Expenses: '' @ show_nat (length es) @ [LF] @
     ''#'' @ [LF] @
     ''id,amount,category,description,date'' @ [LF] @
     join [LF]
       (map (\<lambda>e. escapeCSVField (eid e) @ '','' @ numToString env (amount e) @ '','' @
                  escapeCSVField (category e) @ '','' @ escapeCSVField (description e) @ '','' @
                  escapeCSVField (date e)) es)"

text \<open>The data rows of an import file: the lines after the column header that are neither
  blank nor comments, trimmed, each with the row number the messages use.\<close>

fun dataRows :: "string list \<Rightarrow> nat \<Rightarrow> (nat \<times> string) list" where
  "dataRows [] i = []"
| "dataRows (l # ls) i =
     (if trim l \<noteq> [] \<and> \<not> startsWith (trim l) [HASH]
      then (i + 1, trim l) # dataRows ls (i + 1)
      else dataRows ls (i + 1))"

text \<open>What \<open>csvRowToExpense\<close> makes of a data row.\<close>

definition rowResult :: "js_env \<Rightarrow> int \<Rightarrow> nat \<times> string \<Rightarrow> expense option \<times> string list" where
  "rowResult env now r = csvRowToExpense env now (snd r) (fst r)"

text \<open>The data rows that fail to parse or to validate.\<close>

definition failedRows :: "js_env \<Rightarrow> int \<Rightarrow> (nat \<times> string) list \<Rightarrow> (nat \<times> string) list" where
  "failedRows env now rows = filter (\<lambda>r. fst (rowResult env now r) = None) rows"

text \<open>The records of the data rows that parse and validate, in the order of the file.\<close>

definition validRows :: "js_env \<Rightarrow> int \<Rightarrow> (nat \<times> string) list \<Rightarrow> expense list" where
  "validRows env now rows =
     concat (map (\<lambda>r. case fst (rowResult env now r) of None \<Rightarrow> [] | Some e \<Rightarrow> [e]) rows)"

text \<open>The records accepted from a list of candidates: a candidate is kept unless it is a
  duplicate of a record accepted before it.\<close>

fun keepFirst :: "expense list \<Rightarrow> expense list \<Rightarrow> expense list" where
  "keepFirst acc [] = acc"
| "keepFirst acc (e # es) =
     (if isDuplicate acc e then keepFirst acc es else keepFirst (acc @ [e]) es)"

text \<open>The number of candidates that are duplicates of a record accepted before them.\<close>

fun countDuplicates :: "expense list \<Rightarrow> expense list \<Rightarrow> nat" where
  "countDuplicates acc [] = 0"
| "countDuplicates acc (e # es) =
     (if isDuplicate acc e then 1 + countDuplicates acc es else countDuplicates (acc @ [e]) es)"

text \<open>The data rows of a file.\<close>

definition fileRows :: "js_file \<Rightarrow> (nat \<times> string) list" where
  "fileRows f =
     (let lines = split LF (file_text f); d = findDataStart isHeaderLine lines 0
      in dataRows (drop d lines) d)"

text \<open>The input gates of \<open>importUserData\<close>: the name ends in \<open>.csv\<close>, the file has at
  most 5 MB, it is not blank and a column-header line is found.\<close>

definition recognized :: "js_file \<Rightarrow> bool" where
  "recognized f =
     (endsWith (toLowerCase (file_name f)) ''.csv'' \<and> file_size f \<le> 5 * 1024 * 1024 \<and>
      trim (file_text f) \<noteq> [] \<and> findDataStart isHeaderLine (split LF (file_text f)) 0 \<noteq> 0)"

text \<open>The state in which the row loop of \<open>importUserData\<close> ends.\<close>

definition importLoop :: "js_env \<Rightarrow> int \<Rightarrow> js_file \<Rightarrow> import_state" where
  "importLoop env now f =
     (let lines = split LF (file_text f); d = findDataStart isHeaderLine lines 0
      in importRows env now (drop d lines) d
           \<lparr>st_expenses = [], st_importedCount = 0, st_skippedCount = 0, st_errors = []\<rparr>)"

section \<open>Example data\<close>

text \<open>The instant 2025-11-03T00:00:00Z in milliseconds, and records for the examples.\<close>

definition NOW :: int where
  "NOW = 1762128000000"

definition lunch :: expense where
  "lunch = \<lparr>eid = ''1'', amount = Num 500, category = ''Food & Groceries'',
            description = ''Lunch, with '' @ [QUOTE] @ ''friends'' @ [QUOTE], date = ''2024-01-01''\<rparr>"

definition padded :: expense where
  "padded = \<lparr>eid = ''2'', amount = Num 20, category = ''Housing'',
             description = '' ab'', date = ''2024-01-02''\<rparr>"

definition negative :: expense where
  "negative = \<lparr>eid = ''3'', amount = Num (- 5), category = ''Housing'',
               description = ''Refund'', date = ''2024-01-02''\<rparr>"

definition sample_metadata :: backup_metadata where
  "sample_metadata =
     \<lparr>version = ''1.0'', md_username = ''Saad'', createdAt = ''2025-11-03T00:00:00.000Z'',
      expenseCount = 2, totalAmount = JNum (Num 495),
      dateRange = \<lparr>earliest = ''2024-01-01'', latest = ''2024-01-02''\<rparr>,
      categories = [''Food & Groceries'', ''Housing''], checksum = ''0''\<rparr>"

definition sample_backup :: backup_file where
  "sample_backup =
     \<lparr>metadata = Some sample_metadata,
      expenses = Array [Some (of_expense lunch), Some (of_expense negative)],
      format = ''pak-kharcha-backup''\<rparr>"

definition rejected_backup :: backup_file where
  "rejected_backup =
     \<lparr>metadata = Some sample_metadata, expenses = Array [Some (of_expense negative)],
      format = ''pak-kharcha-backup''\<rparr>"

text \<open>A record with the amount \<open>NaN\<close>, as \<open>csvRowToExpense\<close> makes it of a row whose
  amount is no number, and a backup of a dataset that holds it.\<close>

definition unparsed :: expense where
  "unparsed = \<lparr>eid = ''5'', amount = NaN, category = ''Housing'',
               description = ''Taxi'', date = ''2024-01-03''\<rparr>"

definition nan_backup :: backup_file where
  "nan_backup =
     \<lparr>metadata = Some sample_metadata,
      expenses = Array [Some (of_expense lunch), Some (of_expense unparsed)],
      format = ''pak-kharcha-backup''\<rparr>"

definition old_store :: storage where
  "old_store = [(''csv-pak-kharcha-saad-expenses.csv'', Text ''old'')]"

definition snapshot_store :: storage where
  "snapshot_store = [(''backup-Saad-1762128000000'', Json (BackupDoc sample_backup))]"

definition nan_store :: storage where
  "nan_store = [(''backup-Saad-1762128000000'', Json (BackupDoc nan_backup))]"

definition import_lines :: "string list" where
  "import_lines =
     [''id,amount,category,description,date'',
      ''1,500,Food & Groceries,Lunch,2024-01-01'',
      ''2,-5,Housing,Refund,2024-01-02'',
      ''1,20,Housing,Rent,2024-01-02'',
      ''4,20,Housing,Rent,2024-01-02'']"

definition import_file :: js_file where
  "import_file = \<lparr>file_name = ''expenses.csv'', file_text = join [LF] import_lines\<rparr>"

definition row1 :: expense where
  "row1 = \<lparr>eid = ''1'', amount = Num 500, category = ''Food & Groceries'',
           description = ''Lunch'', date = ''2024-01-01''\<rparr>"

definition row3 :: expense where
  "row3 = \<lparr>eid = ''1'', amount = Num 20, category = ''Housing'',
           description = ''Rent'', date = ''2024-01-02''\<rparr>"

definition row4 :: expense where
  "row4 = \<lparr>eid = ''4'', amount = Num 20, category = ''Housing'',
           description = ''Rent'', date = ''2024-01-02''\<rparr>"

section \<open>Lemmas about the serializer\<close>

lemma split_no_sep: "sep \<notin> set s \<Longrightarrow> split sep s = [s]"
  by (induction s) auto

lemma split_not_Nil: "split sep s \<noteq> []"
  by (induction s) (auto split: list.splits)

lemma split_append_sep: "sep \<notin> set a \<Longrightarrow> split sep (a @ sep # b) = a # split sep b"
  by (induction a) (auto split: list.splits)

lemma split_join:
  "ls \<noteq> [] \<Longrightarrow> list_all (\<lambda>l. sep \<notin> set l) ls \<Longrightarrow> split sep (join [sep] ls) = ls"
proof (induction "[sep]" ls rule: join.induct)
  case 1 then show ?case by simp
next
  case (2 x) then show ?case by (simp add: split_no_sep)
next
  case (3 x y ys)
  then show ?case by (simp add: split_append_sep)
qed

lemma getItem_setItem: "getItem (setItem store k v) k' = (if k' = k then Some v else getItem store k')"
  by (induction store) (auto simp: getItem_def)

lemma trim_stable: "s \<noteq> [] \<Longrightarrow> \<not> is_ws (hd s) \<Longrightarrow> \<not> is_ws (last s) \<Longrightarrow> trim s = s"
proof -
  assume a: "s \<noteq> []" "\<not> is_ws (hd s)" "\<not> is_ws (last s)"
  then have 1: "dropWhile is_ws s = s" by (cases s) auto
  from a have "dropWhile is_ws (rev s) = rev s" by (cases "rev s") (auto simp: hd_rev)
  with 1 show ?thesis by (simp add: trim_def)
qed

lemma tokenize_plain:
  "c \<noteq> QUOTE \<Longrightarrow> c \<noteq> COMMA \<Longrightarrow> tokenize (c # cs) cur q = tokenize cs (cur @ [c]) q"
  by (subst tokenize.simps(2)) simp

lemma tokenize_plain':
  "QUOTE \<noteq> c \<Longrightarrow> COMMA \<noteq> c \<Longrightarrow> tokenize (c # cs) cur q = tokenize cs (cur @ [c]) q"
  by (subst tokenize.simps(2)) auto

lemma tokenize_comma_inside: "tokenize (COMMA # cs) cur True = tokenize cs (cur @ [COMMA]) True"
  by (subst tokenize.simps(2)) (simp add: COMMA_def QUOTE_def)

lemma tokenize_comma: "tokenize (COMMA # cs) cur False = trim cur # tokenize cs [] False"
  by (subst tokenize.simps(2)) (simp add: COMMA_def QUOTE_def)

lemma tokenize_doubled: "tokenize (QUOTE # QUOTE # cs) cur True = tokenize cs (cur @ [QUOTE]) True"
  by (subst tokenize.simps(2)) simp

lemma tokenize_toggle:
  "cs = [] \<or> hd cs \<noteq> QUOTE \<or> \<not> q \<Longrightarrow> tokenize (QUOTE # cs) cur q = tokenize cs cur (\<not> q)"
  by (subst tokenize.simps(2)) (auto split: list.splits)

lemma tokenize_raw:
  "COMMA \<notin> set f \<Longrightarrow> QUOTE \<notin> set f \<Longrightarrow> tokenize (f @ rest) cur False = tokenize rest (cur @ f) False"
  by (induction f arbitrary: cur) (simp_all add: tokenize_plain')

lemma tokenize_inquotes:
  "rest = [] \<or> hd rest \<noteq> QUOTE \<Longrightarrow>
   tokenize (double_quotes f @ QUOTE # rest) cur True = tokenize rest (cur @ f) False"
proof (induction f arbitrary: cur)
  case Nil
  then show ?case by (simp add: tokenize_toggle)
next
  case (Cons x xs)
  show ?case
  proof (cases "x = QUOTE")
    case True
    then show ?thesis using Cons.IH[OF Cons.prems, of "cur @ [QUOTE]"] by (simp add: tokenize_doubled)
  next
    case False
    show ?thesis
    proof (cases "x = COMMA")
      case True
      then show ?thesis using False Cons.IH[OF Cons.prems, of "cur @ [x]"]
        by (simp add: tokenize_comma_inside)
    next
      case nc: False
      then show ?thesis using False Cons.IH[OF Cons.prems, of "cur @ [x]"]
        by (simp add: tokenize_plain)
    qed
  qed
qed

lemma tokenize_escaped:
  assumes "rest = [] \<or> hd rest \<noteq> QUOTE"
  shows "tokenize (escapeCSVField f @ rest) [] False = tokenize rest f False"
proof (cases "COMMA \<in> set f \<or> QUOTE \<in> set f \<or> LF \<in> set f")
  case True
  have "tokenize (QUOTE # (double_quotes f @ QUOTE # rest)) [] False
        = tokenize (double_quotes f @ QUOTE # rest) [] True"
    by (simp add: tokenize_toggle)
  also have "\<dots> = tokenize rest ([] @ f) False"
    by (rule tokenize_inquotes[OF assms])
  finally show ?thesis using True by (simp add: escapeCSVField_def)
next
  case False
  then show ?thesis using tokenize_raw[of f rest "[]"] by (simp add: escapeCSVField_def)
qed

lemma tokenize_escaped_end: "tokenize (escapeCSVField f) [] False = [trim f]"
  using tokenize_escaped[of "[]" f] by simp

lemma tokenize_row:
  assumes "COMMA \<notin> set (numToString env (amount e))" "QUOTE \<notin> set (numToString env (amount e))"
  shows "tokenize (expenseToCSVRow env e) [] False =
         [trim (eid e), trim (numToString env (amount e)), trim (category e),
          trim (description e), trim (date e)]"
proof -
  have c: "\<And>r. COMMA # r = [] \<or> hd (COMMA # r) \<noteq> QUOTE" by (simp add: COMMA_def QUOTE_def)
  have row: "expenseToCSVRow env e =
        escapeCSVField (eid e) @ COMMA # (numToString env (amount e) @ COMMA #
          (escapeCSVField (category e) @ COMMA # (escapeCSVField (description e) @ COMMA #
             escapeCSVField (date e))))"
    by (simp add: expenseToCSVRow_def)
  show ?thesis
    unfolding row
    by (simp only: tokenize_escaped[OF c] tokenize_escaped_end tokenize_comma
        tokenize_raw[OF assms, of _ "[]", simplified])
qed

lemma last_dropWhile: "dropWhile P xs \<noteq> [] \<Longrightarrow> last (dropWhile P xs) = last xs"
  by (induction xs) (auto split: if_splits)

lemma trim_last: "trim s \<noteq> [] \<Longrightarrow> \<not> is_ws (last (trim s))"
proof -
  assume "trim s \<noteq> []"
  then have ne: "dropWhile is_ws (rev (dropWhile is_ws s)) \<noteq> []" by (simp add: trim_def)
  have "last (trim s) = hd (dropWhile is_ws (rev (dropWhile is_ws s)))"
    using ne by (simp add: trim_def last_rev)
  then show ?thesis using hd_dropWhile[OF ne] by simp
qed

lemma trim_hd: "trim s \<noteq> [] \<Longrightarrow> \<not> is_ws (hd (trim s))"
proof -
  assume "trim s \<noteq> []"
  then have ne: "dropWhile is_ws (rev (dropWhile is_ws s)) \<noteq> []" by (simp add: trim_def)
  then have ne2: "dropWhile is_ws s \<noteq> []" by (cases "dropWhile is_ws s") simp_all
  have "hd (trim s) = last (dropWhile is_ws (rev (dropWhile is_ws s)))"
    using ne by (simp add: trim_def hd_rev)
  also have "\<dots> = last (rev (dropWhile is_ws s))" by (rule last_dropWhile[OF ne])
  also have "\<dots> = hd (dropWhile is_ws s)" using ne2 by (simp add: last_rev)
  finally show ?thesis using hd_dropWhile[OF ne2] by simp
qed

lemma set_double_quotes: "set (double_quotes f) = set f"
  by (induction f) auto

lemma set_escapeCSVField: "set (escapeCSVField f) \<subseteq> insert QUOTE (set f)"
  by (auto simp: escapeCSVField_def set_double_quotes)

lemma escapeCSVField_not_Nil: "f \<noteq> [] \<Longrightarrow> escapeCSVField f \<noteq> []"
  by (simp add: escapeCSVField_def)

lemma hd_escapeCSVField: "f \<noteq> [] \<Longrightarrow> \<not> is_ws (hd f) \<Longrightarrow> \<not> is_ws (hd (escapeCSVField f))"
  by (simp add: escapeCSVField_def QUOTE_def is_ws_def)

lemma last_escapeCSVField: "f \<noteq> [] \<Longrightarrow> \<not> is_ws (last f) \<Longrightarrow> \<not> is_ws (last (escapeCSVField f))"
  by (simp add: escapeCSVField_def QUOTE_def is_ws_def)

lemma validCategories_stable: "c \<in> set validCategories \<Longrightarrow> trim c = c \<and> LF \<notin> set c"
  by (auto simp: validCategories_def trim_def is_ws_def LF_def)

lemma isValid_iff:
  "isValid env now e \<longleftrightarrow>
     eid e \<noteq> [] \<and> \<not> num_le_zero (amount e) \<and> \<not> num_gt (amount e) 10000000 \<and>
     category e \<in> set validCategories \<and>
     2 \<le> length (description e) \<and> length (description e) \<le> 200 \<and>
     date e \<noteq> [] \<and> (\<exists>t. parseDate env (date e) = Some t \<and> t \<le> now)"
  by (auto simp: isValid_def validateExpense_def validCategories_def split: option.splits)

lemma startsWith_single: "startsWith s [c] = (s \<noteq> [] \<and> hd s = c)"
  by (cases s) auto

lemma stable_text_ends: "stable_text s \<Longrightarrow> s \<noteq> [] \<Longrightarrow> \<not> is_ws (hd s) \<and> \<not> is_ws (last s)"
  using trim_hd[of s] trim_last[of s] by (simp add: stable_text_def)

lemma row_shape:
  "expenseToCSVRow env e =
     escapeCSVField (eid e) @ COMMA # (numToString env (amount e) @ COMMA #
       (escapeCSVField (category e) @ COMMA # (escapeCSVField (description e) @ COMMA #
          escapeCSVField (date e))))"
  by (simp add: expenseToCSVRow_def)

lemma row_line:
  assumes v: "isValid env now e" and s: "stable_record env e"
  shows "trim (expenseToCSVRow env e) = expenseToCSVRow env e"
    and "expenseToCSVRow env e \<noteq> []"
    and "\<not> startsWith (expenseToCSVRow env e) [HASH]"
    and "LF \<notin> set (expenseToCSVRow env e)"
proof -
  from v have id_ne: "eid e \<noteq> []" and date_ne: "date e \<noteq> []"
    and cat: "category e \<in> set validCategories"
    by (simp_all add: isValid_iff)
  from s have st: "stable_text (eid e)" "stable_text (date e)" "stable_text (description e)"
    and nh: "\<not> startsWith (escapeCSVField (eid e)) [HASH]"
    and sn: "stable_number env (amount e)"
    by (simp_all add: stable_record_def)
  have e1: "escapeCSVField (eid e) \<noteq> []" and e2: "escapeCSVField (date e) \<noteq> []"
    using id_ne date_ne by (simp_all add: escapeCSVField_not_Nil)
  show ne: "expenseToCSVRow env e \<noteq> []" using e1 by (simp add: row_shape)
  have h: "hd (expenseToCSVRow env e) = hd (escapeCSVField (eid e))"
    using e1 by (simp add: row_shape)
  have l: "last (expenseToCSVRow env e) = last (escapeCSVField (date e))"
    using e2 by (simp add: row_shape)
  have "\<not> is_ws (hd (expenseToCSVRow env e))"
    unfolding h using hd_escapeCSVField[OF id_ne] stable_text_ends[OF st(1) id_ne] by simp
  moreover have "\<not> is_ws (last (expenseToCSVRow env e))"
    unfolding l using last_escapeCSVField[OF date_ne] stable_text_ends[OF st(2) date_ne] by simp
  ultimately show "trim (expenseToCSVRow env e) = expenseToCSVRow env e"
    using ne by (simp add: trim_stable)
  show "\<not> startsWith (expenseToCSVRow env e) [HASH]"
    using nh e1 h by (simp add: startsWith_single)
  have q: "LF \<noteq> QUOTE" "LF \<noteq> COMMA" by (simp_all add: LF_def QUOTE_def COMMA_def)
  have "\<And>f. LF \<notin> set f \<Longrightarrow> LF \<notin> set (escapeCSVField f)"
    using set_escapeCSVField q by fastforce
  then show "LF \<notin> set (expenseToCSVRow env e)"
    using st sn validCategories_stable[OF cat] q
    by (simp add: row_shape stable_text_def stable_number_def)
qed

lemma csvRowToExpense_row:
  assumes v: "isValid env now e" and s: "stable_record env e"
  shows "csvRowToExpense env now (expenseToCSVRow env e) i = (Some e, [])"
proof -
  from s have sn: "stable_number env (amount e)" by (simp add: stable_record_def)
  then have c: "COMMA \<notin> set (numToString env (amount e))" "QUOTE \<notin> set (numToString env (amount e))"
    and pf: "parseFloat env (trim (numToString env (amount e))) = amount e"
    by (simp_all add: stable_number_def)
  from v have cat: "category e \<in> set validCategories" and id_ne: "eid e \<noteq> []"
    by (simp_all add: isValid_iff)
  from s have tr: "trim (eid e) = eid e" "trim (description e) = description e" "trim (date e) = date e"
    by (simp_all add: stable_record_def stable_text_def)
  have tc: "trim (category e) = category e" using validCategories_stable[OF cat] by simp
  have rec: "\<lparr>eid = eid e, amount = amount e, category = category e,
              description = description e, date = date e\<rparr> = e" by simp
  have val: "validateExpense env now e = []" using v by (simp add: isValid_def)
  show ?thesis
    by (simp add: csvRowToExpense_def tokenize_row[OF c] tr tc pf id_ne rec val)
qed

lemma fst_loadRows:
  "fst (loadRows env now ls i (es, errs)) = fst (loadRows env now ls i (es, errs'))"
proof (induction ls arbitrary: i es errs errs')
  case Nil
  then show ?case by simp
next
  case (Cons l ls)
  show ?case
    by (cases "csvRowToExpense env now (trim l) (i + 1)")
       (auto simp: Let_def Cons.IH[of _ _ "errs @ _" "errs' @ _"] Cons.IH[of _ _ errs errs']
             split: option.splits)
qed

lemma loadRows_rows:
  assumes "list_all (\<lambda>e. isValid env now e \<and> stable_record env e) D"
  shows "loadRows env now (map (expenseToCSVRow env) D) i (es, errs) = (es @ D, errs)"
  using assms
proof (induction D arbitrary: i es)
  case Nil
  then show ?case by simp
next
  case (Cons e D)
  then have v: "isValid env now e" and s: "stable_record env e" by simp_all
  show ?case
    using Cons by (simp add: row_line[OF v s] csvRowToExpense_row[OF v s])
qed

lemma join_append:
  "xs \<noteq> [] \<Longrightarrow> ys \<noteq> [] \<Longrightarrow> join sep (xs @ ys) = join sep xs @ sep @ join sep ys"
proof (induction sep xs rule: join.induct)
  case (1 sep) then show ?case by simp
next
  case (2 sep x) then show ?case by (cases ys) simp_all
next
  case (3 sep x y zs) then show ?case by simp
qed

lemma content_lines:
  "csvContent env t u D = join [LF] (headerLines env t u (length D) @ row_lines env D)"
proof (cases "D = []")
  case True
  have "join [LF] (headerLines env t u 0 @ [[]]) = join [LF] (headerLines env t u 0) @ [LF] @ join [LF] [[]]"
    by (rule join_append) (simp_all add: headerLines_def)
  then show ?thesis using True by (simp add: csvContent_def csvHeader_def row_lines_def)
next
  case False
  have "join [LF] (headerLines env t u (length D) @ map (expenseToCSVRow env) D)
        = join [LF] (headerLines env t u (length D)) @ [LF] @ join [LF] (map (expenseToCSVRow env) D)"
    by (rule join_append) (simp_all add: headerLines_def False)
  then show ?thesis using False by (simp add: csvContent_def csvHeader_def row_lines_def)
qed

lemma digit_char_in: "d < 10 \<Longrightarrow> digit_char d \<in> set ''0123456789''"
  unfolding digit_char_def by (rule nth_mem) simp

lemma show_nat_digits: "set (show_nat n) \<subseteq> set ''0123456789''"
proof (induction n rule: show_nat.induct)
  case (1 n)
  show ?case
  proof (cases "n < 10")
    case True
    then show ?thesis using digit_char_in[of n] by (subst show_nat.simps) simp
  next
    case False
    have "n mod 10 < 10" by simp
    then show ?thesis using False 1 digit_char_in[of "n mod 10"]
      by (subst show_nat.simps) simp
  qed
qed

lemma LF_not_digit: "LF \<notin> set (show_nat n)"
  using show_nat_digits[of n] by (auto simp: LF_def)

lemma split_content:
  assumes "LF \<notin> set u" "LF \<notin> set (toISOString env t)"
      and "list_all (\<lambda>e. LF \<notin> set (expenseToCSVRow env e)) D"
  shows "split LF (csvContent env t u D) = headerLines env t u (length D) @ row_lines env D"
proof -
  have "list_all (\<lambda>l. LF \<notin> set l) (headerLines env t u (length D))"
    using assms(1,2) LF_not_digit by (simp add: headerLines_def LF_def CSV_VERSION_def)
  moreover have "list_all (\<lambda>l. LF \<notin> set l) (row_lines env D)"
    using assms(3) by (simp add: row_lines_def list_all_iff)
  ultimately show ?thesis
    unfolding content_lines by (intro split_join) (simp_all add: headerLines_def)
qed

lemma includes_absent: "c \<notin> set s \<Longrightarrow> \<not> includes_str s (c # sub)"
  by (induction s) auto

lemma header_signature:
  "\<not> signature_line ''# Pak-Kharcha Expense Data Export''"
  "\<not> signature_line (''# Version: '' @ CSV_VERSION)"
  "\<not> signature_line (''# Total Expenses: '' @ show_nat n)"
  "\<not> signature_line ''#''"
  "signature_line ''id,amount,category,description,date''"
proof -
  show "\<not> signature_line ''# Pak-Kharcha Expense Data Export''"
    unfolding signature_line_def by (rule includes_absent) simp
  show "\<not> signature_line (''# Version: '' @ CSV_VERSION)"
    unfolding signature_line_def by (simp add: CSV_VERSION_def)
  have "CHR ''i'' \<notin> set (''# Total Expenses: '' @ show_nat n)"
    using show_nat_digits[of n] by auto
  then show "\<not> signature_line (''# Total Expenses: '' @ show_nat n)"
    unfolding signature_line_def by (rule includes_absent)
  show "\<not> signature_line ''#''"
    unfolding signature_line_def by simp
  show "signature_line ''id,amount,category,description,date''"
    unfolding signature_line_def by simp
qed

lemma findDataStart_header:
  "findDataStart signature_line (headerLines env t u n @ rows) 0 =
     (if signature_line (''# User: '' @ u) then 3
      else if signature_line (''# Export Date: '' @ toISOString env t) then 4 else 7)"
  using header_signature(1,2,4,5) header_signature(3)[of n] by (simp add: headerLines_def)

lemma trim_keeps_first: "\<not> is_ws c \<Longrightarrow> startsWith (trim (c # s)) [c]"
proof -
  assume c: "\<not> is_ws c"
  have "\<exists>r. dropWhile is_ws (rev s @ [c]) = r @ [c]"
    using c by (simp add: dropWhile_append)
  then obtain r where "dropWhile is_ws (rev s @ [c]) = r @ [c]" ..
  then show ?thesis using c by (simp add: trim_def)
qed

lemma loadRows_comment:
  "startsWith (trim l) [HASH] \<Longrightarrow> loadRows env now (l # ls) i acc = loadRows env now ls (i + 1) acc"
  by (cases acc) simp

lemma comment_line: "startsWith (trim (HASH # s)) [HASH]"
  by (rule trim_keeps_first) (simp add: HASH_def is_ws_def)

lemma header_row_rejected:
  "fst (csvRowToExpense env now ''id,amount,category,description,date'' i) = None"
proof -
  have t: "tokenize ''id,amount,category,description,date'' [] False
           = [''id'', ''amount'', ''category'', ''description'', ''date'']"
    by (simp add: tokenize.simps COMMA_def QUOTE_def trim_def is_ws_def)
  have v: "\<And>a. validateExpense env now
          \<lparr>eid = ''id'', amount = a, category = ''category'', description = ''description'', date = ''date''\<rparr> \<noteq> []"
    by (simp add: validateExpense_def validCategories_def)
  show ?thesis by (simp add: csvRowToExpense_def t v Let_def)
qed

lemma loadRows_header_row:
  "fst (loadRows env now (''id,amount,category,description,date'' # ls) i (es, errs))
   = fst (loadRows env now ls (i + 1) (es, errs))"
proof -
  have tr: "trim ''id,amount,category,description,date'' = ''id,amount,category,description,date''"
    by (simp add: trim_def is_ws_def)
  obtain r errs' where r: "csvRowToExpense env now ''id,amount,category,description,date'' (i + 1) = (r, errs')"
    by (cases "csvRowToExpense env now ''id,amount,category,description,date'' (i + 1)")
  with header_row_rejected[of env now "i + 1"] have "r = None" by simp
  then show ?thesis using r fst_loadRows[of env now ls "i + 1" es "errs @ errs'" errs]
    by (simp add: tr HASH_def)
qed

lemma loadRows_after_header:
  "fst (loadRows env now
          (drop (findDataStart signature_line (headerLines env t u n @ rows) 0) (headerLines env t u n @ rows))
          (findDataStart signature_line (headerLines env t u n @ rows) 0) ([], []))
   = fst (loadRows env now rows 7 ([], []))"
proof -
  have c: "\<And>s. HASH # s = CHR ''#'' # s" by (simp add: HASH_def)
  have cm: "\<And>s ls i acc. loadRows env now ((CHR ''#'' # s) # ls) i acc = loadRows env now ls (i + 1) acc"
    using loadRows_comment[OF comment_line] by (simp add: HASH_def)
  show ?thesis
    unfolding findDataStart_header
    by (simp add: headerLines_def cm loadRows_header_row del: loadRows.simps)
qed

lemma key_distinct:
  "''csv-metadata-'' @ f \<noteq> ''csv-'' @ getFileName u"
  "''csv-backup-'' @ f \<noteq> ''csv-'' @ getFileName u"
  by (simp_all add: getFileName_def)

lemma saveExpenses_ok:
  "u \<noteq> [] \<Longrightarrow> \<exists>store'. saveExpenses env t u D store = Inr store'"
  by (simp add: saveExpenses_def Let_def)

lemma saveExpenses_csv:
  assumes "saveExpenses env t u D store = Inr store'"
  shows "getItem store' (''csv-'' @ getFileName u) = Some (Text (csvContent env t u D))"
  using assms
  by (auto simp: saveExpenses_def Let_def getItem_setItem key_distinct split: if_splits)

lemma csvContent_not_Nil: "csvContent env t u D \<noteq> []"
  by (simp add: csvContent_def csvHeader_def headerLines_def)

lemma load_after_save:
  assumes u: "u \<noteq> []" and nl: "LF \<notin> set u" "LF \<notin> set (toISOString env t)"
      and rows: "list_all (\<lambda>e. LF \<notin> set (expenseToCSVRow env e)) D"
      and save: "saveExpenses env t u D store = Inr store'"
  shows "\<exists>w. loadExpenses env now u store' = Inr (fst (loadRows env now (row_lines env D) 7 ([], [])), w)"
proof -
  have lines: "split LF (csvContent env t u D) = headerLines env t u (length D) @ row_lines env D"
    by (rule split_content[OF nl rows])
  show ?thesis
    using u csvContent_not_Nil[of env t u D]
    by (simp add: loadExpenses_def saveExpenses_csv[OF save, simplified] Let_def lines
          case_prod_beta loadRows_after_header del: drop_append)
qed

lemma load_saved_records:
  assumes u: "u \<noteq> []" and nl: "LF \<notin> set u" "LF \<notin> set (toISOString env t)"
      and D: "list_all (\<lambda>e. isValid env now e \<and> stable_record env e) D"
      and save: "saveExpenses env t u D store = Inr store'"
  shows "loaded_records (loadExpenses env now u store') = Inr D"
proof -
  have rows: "list_all (\<lambda>e. LF \<notin> set (expenseToCSVRow env e)) D"
    using D row_line(4) by (auto simp: list_all_iff)
  have r: "fst (loadRows env now (row_lines env D) 7 ([], [])) = D"
  proof (cases "D = []")
    case True
    then show ?thesis by (simp add: row_lines_def trim_def)
  next
    case False
    then show ?thesis using loadRows_rows[OF D, of 7 "[]" "[]"] by (simp add: row_lines_def)
  qed
  from load_after_save[OF u nl rows save] obtain w where
    "loadExpenses env now u store' = Inr (fst (loadRows env now (row_lines env D) 7 ([], [])), w)"
    by blast
  then show ?thesis using r by (simp add: loaded_records_def)
qed

section \<open>Lemmas about restore and import\<close>

lemma meta_key_distinct: "''csv-'' @ getFileName u \<noteq> ''csv-metadata-'' @ f"
  by (simp add: getFileName_def)

lemma validateAll_spec:
  "validateAll env es index (valid, errs) = (valid @ filter (passes env) es, errs @ recordErrors env index es)"
proof (induction es arbitrary: index valid errs)
  case Nil
  then show ?case by simp
next
  case (Cons e es)
  show ?case
  proof (cases "BackupManager_validateExpense env e")
    case (Inl err)
    then show ?thesis using Cons.IH by (cases err) (simp add: passes_def)
  next
    case (Inr u)
    then show ?thesis using Cons.IH by (simp add: passes_def)
  qed
qed

lemma length_recordErrors:
  "length (recordErrors env index es) = length es - length (filter (passes env) es)"
proof (induction es arbitrary: index)
  case Nil
  then show ?case by simp
next
  case (Cons e es)
  have le: "length (filter (passes env) es) \<le> length es" by simp
  show ?case
  proof (cases "BackupManager_validateExpense env e")
    case (Inl err)
    then show ?thesis using Cons.IH[of "index + 1"] le by (cases err) (simp add: passes_def Suc_diff_le)
  next
    case (Inr u)
    then show ?thesis using Cons.IH[of "index + 1"] le by (simp add: passes_def)
  qed
qed

lemma wellformed_backupD:
  "wellformed_backup fname content xs \<Longrightarrow>
   endsWith (toLowerCase fname) ''.json'' \<and>
   (\<exists>b md. JSON_parse content = Some (BackupDoc b) \<and> format b = ''pak-kharcha-backup'' \<and>
            metadata b = Some md \<and> expenses b = Array xs)"
  by (auto simp: wellformed_backup_def split: option.splits jdoc.splits)

lemma passes_numeric: "passes env x \<Longrightarrow> numeric x"
  by (auto simp: passes_def numeric_def BackupManager_validateExpense_def
           split: option.splits jval.splits if_splits)

lemma anyToCSVRow_numeric:
  "numeric x \<Longrightarrow> anyToCSVRow env x = Inr (expenseToCSVRow env (as_expense env (the x)))"
  by (auto simp: numeric_def anyToCSVRow_def expenseToCSVRow_def as_expense_def
           split: option.splits jval.splits)

lemma anyRows_numeric:
  "list_all numeric xs \<Longrightarrow> anyRows env xs = Inr (map (expenseToCSVRow env) (map (as_expense env \<circ> the) xs))"
  by (induction xs) (simp_all add: anyToCSVRow_numeric)

lemma saveExpensesAny_numeric:
  "list_all numeric xs \<Longrightarrow>
   saveExpensesAny env now u (Array xs) store = saveExpenses env now u (map (as_expense env \<circ> the) xs) store"
  by (simp add: saveExpensesAny_def saveExpenses_def anyRows_numeric csvContent_def Let_def)

lemma anyToCSVRow_unprintable: "unprintable x \<longleftrightarrow> (\<exists>err. anyToCSVRow env x = Inl err)"
  by (auto simp: unprintable_def anyToCSVRow_def split: option.splits jval.splits)

lemma anyRows_unprintable: "list_ex unprintable xs \<longleftrightarrow> (\<exists>err. anyRows env xs = Inl err)"
proof (induction xs)
  case Nil
  then show ?case by simp
next
  case (Cons x xs)
  show ?case
  proof (cases "anyToCSVRow env x")
    case (Inl err)
    then show ?thesis using anyToCSVRow_unprintable[of x env] by simp
  next
    case (Inr row)
    then have "\<not> unprintable x" using anyToCSVRow_unprintable[of x env] by simp
    then show ?thesis using Cons Inr by (auto split: sum.splits)
  qed
qed

lemma saveExpensesAny_unprintable:
  "list_ex unprintable xs \<Longrightarrow> \<exists>err. saveExpensesAny env now u (Array xs) store = Inl err"
  using anyRows_unprintable[of xs env]
  by (auto simp: saveExpensesAny_def split: error.splits sum.splits)

lemma csvContent_text: "csvContent env now u es = dataset_text env now u es"
proof -
  have "expenseToCSVRow env =
        (\<lambda>e. escapeCSVField (eid e) @ '','' @ numToString env (amount e) @ '','' @
              escapeCSVField (category e) @ '','' @ escapeCSVField (description e) @ '','' @
              escapeCSVField (date e))"
    by (rule ext) (simp add: expenseToCSVRow_def COMMA_def)
  then show ?thesis
    by (simp add: csvContent_def csvHeader_def headerLines_def dataset_text_def CSV_VERSION_def)
qed

lemma csvRowToExpense_None_errors:
  "fst (csvRowToExpense env now row i) = None \<Longrightarrow> snd (csvRowToExpense env now row i) \<noteq> []"
  by (auto simp: csvRowToExpense_def Let_def split: list.splits if_splits)


lemma length_keepFirst: "length (keepFirst acc v) + countDuplicates acc v = length acc + length v"
  by (induction v arbitrary: acc) auto


lemma importRows_spec:
  "st_expenses (importRows env now ls i st)
     = keepFirst (st_expenses st) (validRows env now (dataRows ls i)) \<and>
   st_importedCount (importRows env now ls i st) + countDuplicates (st_expenses st) (validRows env now (dataRows ls i))
     = st_importedCount st + length (validRows env now (dataRows ls i)) \<and>
   st_skippedCount (importRows env now ls i st)
     = st_skippedCount st + length (failedRows env now (dataRows ls i))
       + countDuplicates (st_expenses st) (validRows env now (dataRows ls i)) \<and>
   length (st_errors (importRows env now ls i st))
     \<ge> length (st_errors st) + length (failedRows env now (dataRows ls i))
       + countDuplicates (st_expenses st) (validRows env now (dataRows ls i))"
proof (induction ls arbitrary: i st)
  case Nil
  then show ?case by (simp add: validRows_def failedRows_def)
next
  case (Cons l ls)
  show ?case
  proof (cases "trim l \<noteq> [] \<and> \<not> startsWith (trim l) [HASH]")
    case False
    then show ?thesis using Cons.IH[of "i + 1" st] by auto
  next
    case row: True
    obtain r errs where p: "csvRowToExpense env now (trim l) (i + 1) = (r, errs)"
      by (cases "csvRowToExpense env now (trim l) (i + 1)")
    show ?thesis
    proof (cases r)
      case None
      with p csvRowToExpense_None_errors[of env now "trim l" "i + 1"] have "errs \<noteq> []" by simp
      then have "1 \<le> length errs" by (cases errs) simp_all
      then show ?thesis
        using row p None
          Cons.IH[of "i + 1" "st\<lparr>st_skippedCount := st_skippedCount st + 1, st_errors := st_errors st @ errs\<rparr>"]
        by (simp add: validRows_def failedRows_def rowResult_def)
    next
      case (Some e)
      show ?thesis
      proof (cases "isDuplicate (st_expenses st) e")
        case True
        then show ?thesis
          using row p Some
            Cons.IH[of "i + 1" "st\<lparr>st_skippedCount := st_skippedCount st + 1,
                 st_errors := st_errors st @ [''Row '' @ show_nat (i + 1) @ '': Duplicate expense skipped'']\<rparr>"]
          by (simp add: validRows_def failedRows_def rowResult_def)
      next
        case False
        then show ?thesis
          using row p Some
            Cons.IH[of "i + 1" "st\<lparr>st_expenses := st_expenses st @ [e],
                 st_importedCount := st_importedCount st + 1\<rparr>"]
          by (simp add: validRows_def failedRows_def rowResult_def)
      qed
    qed
  qed
qed

lemma importLoop_spec:
  "st_expenses (importLoop env now f) = keepFirst [] (validRows env now (fileRows f))"
  "st_importedCount (importLoop env now f) + countDuplicates [] (validRows env now (fileRows f))
     = length (validRows env now (fileRows f))"
  "st_skippedCount (importLoop env now f)
     = length (failedRows env now (fileRows f)) + countDuplicates [] (validRows env now (fileRows f))"
  "length (failedRows env now (fileRows f)) + countDuplicates [] (validRows env now (fileRows f))
     \<le> length (st_errors (importLoop env now f))"
  using importRows_spec[of env now
      "drop (findDataStart isHeaderLine (split LF (file_text f)) 0) (split LF (file_text f))"
      "findDataStart isHeaderLine (split LF (file_text f)) 0"
      "\<lparr>st_expenses = [], st_importedCount = 0, st_skippedCount = 0, st_errors = []\<rparr>"]
  by (simp_all add: importLoop_def fileRows_def Let_def)

lemma import_success:
  assumes "recognized f" "u \<noteq> []" "st_expenses (importLoop env now f) \<noteq> []"
  shows "\<exists>store'. saveExpenses env now u (st_expenses (importLoop env now f)) store = Inr store' \<and>
           importUserData env now u f store =
             (\<lparr>success = True, importedCount = st_importedCount (importLoop env now f),
               skippedCount = st_skippedCount (importLoop env now f),
               errors = st_errors (importLoop env now f)\<rparr>, store')"
proof -
  from saveExpenses_ok[OF assms(2)] obtain store' where
    s: "saveExpenses env now u (st_expenses (importLoop env now f)) store = Inr store'" by blast
  have "importUserData env now u f store =
             (\<lparr>success = True, importedCount = st_importedCount (importLoop env now f),
               skippedCount = st_skippedCount (importLoop env now f),
               errors = st_errors (importLoop env now f)\<rparr>, store')"
    using assms(1,3) s
    by (simp add: importUserData_def recognized_def importLoop_def Let_def)
  with s show ?thesis by blast
qed

lemma import_failure_cases:
  assumes "\<not> recognized f \<or> u = [] \<or> st_expenses (importLoop env now f) = []"
  shows "\<not> success (fst (importUserData env now u f store)) \<and>
         snd (importUserData env now u f store) = store"
  using assms
  by (auto simp: importUserData_def recognized_def importLoop_def Let_def import_failure_def
        saveExpenses_def split: sum.splits error.splits)



lemma loaded_records_meta:
  "loaded_records (loadExpenses env now u (setItem store (''csv-metadata-'' @ getFileName u) m))
   = loaded_records (loadExpenses env now u store)"
  by (simp add: loaded_records_def loadExpenses_def getItem_setItem meta_key_distinct Let_def
        case_prod_beta split: option.splits)

lemma image_with_checksum:
  "json_backup_image (with_checksum b c) = with_checksum (json_backup_image b) c"
  by (cases "metadata b") (simp_all add: json_backup_image_def with_checksum_def)

lemma restore_checksum_independent:
  "fst (snd (restoreFromBackup env now u fname (Json (BackupDoc (with_checksum b c))) store))
     = fst (snd (restoreFromBackup env now u fname (Json (BackupDoc b)) store)) \<and>
   restore_success (fst (restoreFromBackup env now u fname (Json (BackupDoc (with_checksum b c))) store))
     = restore_success (fst (restoreFromBackup env now u fname (Json (BackupDoc b)) store)) \<and>
   restoredCount (fst (restoreFromBackup env now u fname (Json (BackupDoc (with_checksum b c))) store))
     = restoredCount (fst (restoreFromBackup env now u fname (Json (BackupDoc b)) store)) \<and>
   restore_errors (fst (restoreFromBackup env now u fname (Json (BackupDoc (with_checksum b c))) store))
     = restore_errors (fst (restoreFromBackup env now u fname (Json (BackupDoc b)) store))"
  by (cases "metadata b"; cases "expenses b")
     (auto simp: restoreFromBackup_def json_backup_image_def with_checksum_def Let_def
           restore_failure_def case_prod_beta
           split: sum.splits error.splits)

lemma restore_wellformed_result:
  assumes wf: "wellformed_backup fname content xs" and u: "u \<noteq> []"
  shows "(filter (passes env) xs = [] \<longrightarrow>
            fst (restoreFromBackup env now u fname content store)
              = restore_failure ''No valid expenses found in backup file'' \<and>
            fst (snd (restoreFromBackup env now u fname content store)) = store) \<and>
         (filter (passes env) xs \<noteq> [] \<longrightarrow>
            restore_success (fst (restoreFromBackup env now u fname content store)) \<and>
            restoredCount (fst (restoreFromBackup env now u fname content store))
              = length (filter (passes env) xs) \<and>
            restore_errors (fst (restoreFromBackup env now u fname content store))
              = recordErrors env 0 xs \<and>
            saveExpenses env now u (committed env xs) store
              = Inr (fst (snd (restoreFromBackup env now u fname content store))))"
proof -
  from wellformed_backupD[OF wf] obtain b md where
    n: "endsWith (toLowerCase fname) ''.json''" and c: "JSON_parse content = Some (BackupDoc b)"
    and f: "format b = ''pak-kharcha-backup''" and m: "metadata b = Some md" and e: "expenses b = Array xs"
    by blast
  have num: "list_all numeric (filter (passes env) xs)"
    using passes_numeric by (auto simp: list_all_iff)
  from saveExpenses_ok[OF u] obtain store' where
    s: "saveExpenses env now u (committed env xs) store = Inr store'" by blast
  then have s': "saveExpensesAny env now u (Array (filter (passes env) xs)) store = Inr store'"
    using saveExpensesAny_numeric[OF num, of env now u store] by (simp add: committed_def)
  show ?thesis
    using n f m e s s'
    by (simp add: c restoreFromBackup_def Let_def validateAll_spec)
qed

lemma is_string_String: "is_string v \<Longrightarrow> JStr (js_String env v) = v"
  by (cases v) simp_all

lemma committed_elements:
  "map (Some \<circ> of_expense) (committed env xs)
     = map (map_option (\<lambda>e. e\<lparr>any_date := JStr (js_String env (any_date e))\<rparr>)) (filter (passes env) xs)"
proof -
  have "\<And>x. passes env x \<Longrightarrow>
          Some (of_expense (as_expense env (the x)))
            = map_option (\<lambda>e. e\<lparr>any_date := JStr (js_String env (any_date e))\<rparr>) x"
    by (auto simp: passes_def BackupManager_validateExpense_def of_expense_def as_expense_def
             is_string_String split: option.splits jval.splits if_splits)
  then show ?thesis by (simp add: committed_def)
qed

lemma snapshot_recordsD:
  "snapshot_records v = Some xs \<Longrightarrow>
   truthy v \<and> (\<exists>b. JSON_parse v = Some (BackupDoc b) \<and> expenses b = Array xs)"
  by (cases v) (auto simp: snapshot_records_def split: option.splits jdoc.splits jarray.splits)

lemma anyRows_printable: "\<not> list_ex unprintable xs \<Longrightarrow> \<exists>rows. anyRows env xs = Inr rows"
  using anyRows_unprintable[of xs env] by (cases "anyRows env xs") auto

lemma saveExpensesAny_printable:
  "u \<noteq> [] \<Longrightarrow> \<not> list_ex unprintable xs \<Longrightarrow> \<exists>store'. saveExpensesAny env now u (Array xs) store = Inr store'"
  using anyRows_printable[of xs env] by (auto simp: saveExpensesAny_def Let_def)

lemma local_restore_result:
  assumes "getItem store (''backup-'' @ u @ ''-'' @ backupId) = Some snapshot"
      and "snapshot_records snapshot = Some xs"
  shows "restoreFromLocalBackup env now u backupId store =
           (case saveExpensesAny env now u (Array xs) store of
              Inl err \<Rightarrow> (False, store) | Inr store' \<Rightarrow> (True, store'))"
  using assms(1) snapshot_recordsD[OF assms(2)]
  by (auto simp: restoreFromLocalBackup_def)

lemma csvRowToExpense_valid: "fst (csvRowToExpense env now row i) = Some e \<Longrightarrow> isValid env now e"
  by (auto simp: csvRowToExpense_def isValid_def Let_def split: list.splits if_splits)

lemma validRows_valid: "e \<in> set (validRows env now rows) \<Longrightarrow> isValid env now e"
  by (auto simp: validRows_def rowResult_def csvRowToExpense_valid split: option.splits)

lemma isValid_later: "isValid env now e \<Longrightarrow> now \<le> later \<Longrightarrow> isValid env later e"
  by (auto simp: isValid_def validateExpense_def split: if_splits option.splits)

lemma set_keepFirst: "set (keepFirst acc v) \<subseteq> set acc \<union> set v"
proof (induction v arbitrary: acc)
  case Nil
  then show ?case by simp
next
  case (Cons a v)
  show ?case using Cons[of acc] Cons[of "acc @ [a]"] by auto
qed

section \<open>Evaluation in the reference runtime\<close>

lemmas ref_eval =
  ref_parseFloat_def is_digit_def digit_val_def digits_val_def digit_table_def
  ref_numToString_def show_nat.simps digit_char_def
  ref_parseDate_def ref_toISOString_def field_val_def days_from_civil_def civil_from_days_def
  pad_def show_int_def is_ws_def Let_def

lemma ref_env_sel:
  "parseFloat ref_env = ref_parseFloat" "numToString ref_env = ref_numToString"
  "parseDate ref_env = ref_parseDate" "toISOString ref_env = ref_toISOString"
  "stringifyExpenses ref_env = ref_stringifyExpenses" "addMonth ref_env = ref_addMonth"
  by (simp_all add: ref_env_def)

lemma replicate_numeral: "replicate (numeral k) x = x # replicate (pred_numeral k) x"
  by (simp add: numeral_eq_Suc)

lemma ref_iso_NOW: "toISOString ref_env NOW = ''2025-11-03T00:00:00.000Z''"
  by (simp add: ref_env_sel NOW_def ref_eval replicate_numeral cong: let_weak_cong)

lemma ref_dates:
  "parseDate ref_env ''2024-01-01'' = Some 1704067200000"
  "parseDate ref_env ''2024-01-02'' = Some 1704153600000"
  by (simp_all add: ref_env_sel ref_eval replicate_numeral cong: let_weak_cong)

lemma ref_numbers:
  "numToString ref_env (Num 500) = ''500''"
  "numToString ref_env (Num 20) = ''20''"
  "parseFloat ref_env ''500'' = Num 500"
  "parseFloat ref_env ''20'' = Num 20"
  by (simp_all add: ref_env_sel ref_eval cong: let_weak_cong)

lemma lunch_valid: "isValid ref_env NOW lunch"
  by (simp add: isValid_iff lunch_def ref_dates validCategories_def NOW_def)

lemma lunch_stable: "stable_record ref_env lunch"
  by (simp add: stable_record_def stable_text_def stable_number_def lunch_def ref_numbers
        trim_def is_ws_def LF_def QUOTE_def COMMA_def HASH_def escapeCSVField_def)

section \<open>Facts about the example data\<close>

lemma json_name: "endsWith (toLowerCase ''backup.json'') ''.json''"
  by (simp add: endsWith_def toLowerCase_def lower_char_def lower_table_def)

lemma negative_fails:
  "\<not> passes ref_env (Some (of_expense negative))" "\<not> isValid ref_env NOW negative"
  "BackupManager_validateExpense ref_env (Some (of_expense negative)) = Inl (Error ''Invalid expense amount'')"
  by (simp_all add: passes_def BackupManager_validateExpense_def of_expense_def negative_def isValid_iff)

lemma lunch_passes: "passes ref_env (Some (of_expense lunch))"
  by (simp add: passes_def BackupManager_validateExpense_def of_expense_def lunch_def ref_dates)

lemma as_of_expense: "as_expense env (of_expense e) = e"
  by (simp add: as_expense_def of_expense_def)

lemma show_small: "show_nat (Suc (Suc 0)) = ''2''" "show_nat (Suc 0) = ''1''"
  by (simp_all add: show_nat.simps digit_char_def)

lemma import_split: "split LF (file_text import_file) = import_lines"
proof -
  have "split LF (join [LF] import_lines) = import_lines"
    by (rule split_join) (simp_all add: import_lines_def LF_def)
  then show ?thesis by (simp add: import_file_def)
qed

lemma import_header: "findDataStart isHeaderLine import_lines 0 = 1"
  by (simp add: import_lines_def isHeaderLine_def trim_def is_ws_def toLowerCase_def lower_char_def
        lower_table_def)

lemma import_rows:
  "fileRows import_file =
     [(2, ''1,500,Food & Groceries,Lunch,2024-01-01''), (3, ''2,-5,Housing,Refund,2024-01-02''),
      (4, ''1,20,Housing,Rent,2024-01-02''), (5, ''4,20,Housing,Rent,2024-01-02'')]"
  by (simp add: fileRows_def import_split import_header Let_def)
     (simp add: import_lines_def trim_def is_ws_def HASH_def)

lemma ref_minus5: "parseFloat ref_env ''-5'' = Num (- 5)"
  by (simp add: ref_env_sel ref_eval cong: let_weak_cong)

lemmas tok_eval = tokenize.simps COMMA_def QUOTE_def trim_def is_ws_def

lemma import_results:
  "rowResult ref_env NOW (2, ''1,500,Food & Groceries,Lunch,2024-01-01'') = (Some row1, [])"
  "fst (rowResult ref_env NOW (3, ''2,-5,Housing,Refund,2024-01-02'')) = None"
  "rowResult ref_env NOW (4, ''1,20,Housing,Rent,2024-01-02'') = (Some row3, [])"
  "rowResult ref_env NOW (5, ''4,20,Housing,Rent,2024-01-02'') = (Some row4, [])"
  by (simp_all add: rowResult_def csvRowToExpense_def tok_eval ref_numbers ref_minus5
        validateExpense_def validCategories_def ref_dates NOW_def row1_def row3_def row4_def Let_def)


lemma import_valid: "validRows ref_env NOW (fileRows import_file) = [row1, row3, row4]"
  by (simp add: validRows_def import_rows import_results)

lemma import_dups:
  "countDuplicates [] [row1, row3, row4] = 1"
  "keepFirst [] [row1, row3, row4] = [row1, row4]"
  by (simp_all add: isDuplicate_def row1_def row3_def row4_def num_eq_def)

lemma trim_not_Nil: "\<not> is_ws c \<Longrightarrow> trim (c # s) \<noteq> []"
  using trim_keeps_first[of c s] by (cases "trim (c # s)") auto

lemma import_recognized: "recognized import_file"
proof -
  have n: "endsWith (toLowerCase ''expenses.csv'') ''.csv''"
    by (simp add: endsWith_def toLowerCase_def lower_char_def lower_table_def)
  have t: "trim (file_text import_file) \<noteq> []"
    by (simp add: import_file_def import_lines_def trim_not_Nil is_ws_def)
  have s: "file_size import_file \<le> 5 * 1024 * 1024"
    by (simp add: file_size_def import_file_def import_lines_def)
  show ?thesis
    using n t s by (simp add: recognized_def import_split import_header) (simp add: import_file_def)
qed

lemma nan_parsed:
  "JSON_parse (Json (BackupDoc nan_backup)) =
     Some (BackupDoc \<lparr>metadata = Some sample_metadata,
             expenses = Array [Some (of_expense lunch), Some ((of_expense unparsed)\<lparr>any_amount := JNull\<rparr>)],
             format = ''pak-kharcha-backup''\<rparr>)"
  by (simp add: nan_backup_def json_backup_image_def json_expense_image_def of_expense_def
        lunch_def unparsed_def sample_metadata_def)

lemma rejected_parsed:
  "JSON_parse (Json (BackupDoc rejected_backup)) = Some (BackupDoc rejected_backup)"
  by (simp add: rejected_backup_def json_backup_image_def json_expense_image_def of_expense_def
        negative_def sample_metadata_def)

lemma null_amount_fails:
  "BackupManager_validateExpense ref_env (Some ((of_expense unparsed)\<lparr>any_amount := JNull\<rparr>))
     = Inl (Error ''Invalid expense amount'')"
  by (simp add: BackupManager_validateExpense_def of_expense_def unparsed_def)

lemma lunch_text:
  "dataset_text ref_env NOW ''Saad'' [lunch] =
     ''# Pak-Kharcha Expense Data Export'' @ [CHR 0x0A] @
     ''# Version: 2.0'' @ [CHR 0x0A] @
     ''# User: Saad'' @ [CHR 0x0A] @
     ''# Export Date: 2025-11-03T00:00:00.000Z'' @ [CHR 0x0A] @
     ''# Total Expenses: 1'' @ [CHR 0x0A] @
     ''#'' @ [CHR 0x0A] @
     ''id,amount,category,description,date'' @ [CHR 0x0A] @
     ''1,500,Food & Groceries,'' @ [CHR 0x22] @ ''Lunch, with '' @ [CHR 0x22, CHR 0x22] @ ''friends'' @
       [CHR 0x22, CHR 0x22, CHR 0x22] @ '',2024-01-01''"
  by (simp add: dataset_text_def ref_iso_NOW show_small lunch_def ref_numbers escapeCSVField_def
        LF_def QUOTE_def COMMA_def)

lemma ref_minus5_text: "numToString ref_env (Num (- 5)) = ''-5''"
  by (simp add: ref_env_sel ref_eval cong: let_weak_cong)

lemma sample_parsed:
  "snapshot_records (Json (BackupDoc sample_backup)) = Some [Some (of_expense lunch), Some (of_expense negative)]"
  by (simp add: snapshot_records_def sample_backup_def json_backup_image_def json_expense_image_def
        of_expense_def lunch_def negative_def)

lemma sample_text:
  "dataset_text ref_env NOW ''Saad'' [lunch, negative] =
     ''# Pak-Kharcha Expense Data Export'' @ [CHR 0x0A] @
     ''# Version: 2.0'' @ [CHR 0x0A] @
     ''# User: Saad'' @ [CHR 0x0A] @
     ''# Export Date: 2025-11-03T00:00:00.000Z'' @ [CHR 0x0A] @
     ''# Total Expenses: 2'' @ [CHR 0x0A] @
     ''#'' @ [CHR 0x0A] @
     ''id,amount,category,description,date'' @ [CHR 0x0A] @
     ''1,500,Food & Groceries,'' @ [CHR 0x22] @ ''Lunch, with '' @ [CHR 0x22, CHR 0x22] @ ''friends'' @
       [CHR 0x22, CHR 0x22, CHR 0x22] @ '',2024-01-01'' @ [CHR 0x0A] @
     ''3,-5,Housing,Refund,2024-01-02''"
  by (simp add: dataset_text_def ref_iso_NOW show_small lunch_def negative_def ref_numbers
        ref_minus5_text escapeCSVField_def LF_def QUOTE_def COMMA_def)

lemma ref_abc: "parseFloat ref_env ''abc'' = NaN"
  by (simp add: ref_env_sel ref_eval cong: let_weak_cong)

lemma ref_date3: "parseDate ref_env ''2024-01-03'' = Some 1704240000000"
  by (simp add: ref_env_sel ref_eval replicate_numeral cong: let_weak_cong)

lemma unparsed_row:
  "csvRowToExpense ref_env NOW ''5,abc,Housing,Taxi,2024-01-03'' 8 = (Some unparsed, [])"
  by (simp add: csvRowToExpense_def tok_eval ref_abc validateExpense_def validCategories_def
        ref_date3 NOW_def unparsed_def Let_def)

lemma nan_records:
  "snapshot_records (Json (BackupDoc nan_backup))
     = Some [Some (of_expense lunch), Some ((of_expense unparsed)\<lparr>any_amount := JNull\<rparr>)]"
  unfolding snapshot_records_def nan_parsed by simp

lemma nan_stored: "storeLocalBackup ref_env 1762128000000 ''Saad'' nan_backup [] = nan_store"
  by (simp add: storeLocalBackup_def getLocalBackups_def entry_metadata_def
        sort_newest_first_def nan_store_def show_int_def show_nat.simps digit_char_def
        nan_backup_def json_backup_image_def Let_def)

lemma rows_stable: "stable_record ref_env row1" "stable_record ref_env row4"
  by (simp_all add: stable_record_def stable_text_def stable_number_def row1_def row4_def ref_numbers
        trim_def is_ws_def LF_def QUOTE_def COMMA_def HASH_def escapeCSVField_def)

lemma rows_text:
  "dataset_text ref_env NOW ''Saad'' [row1, row4] =
     ''# Pak-Kharcha Expense Data Export'' @ [CHR 0x0A] @
     ''# Version: 2.0'' @ [CHR 0x0A] @
     ''# User: Saad'' @ [CHR 0x0A] @
     ''# Export Date: 2025-11-03T00:00:00.000Z'' @ [CHR 0x0A] @
     ''# Total Expenses: 2'' @ [CHR 0x0A] @
     ''#'' @ [CHR 0x0A] @
     ''id,amount,category,description,date'' @ [CHR 0x0A] @
     ''1,500,Food & Groceries,Lunch,2024-01-01'' @ [CHR 0x0A] @
     ''4,20,Housing,Rent,2024-01-02''"
  by (simp add: dataset_text_def ref_iso_NOW show_small row1_def row4_def ref_numbers
        escapeCSVField_def LF_def QUOTE_def COMMA_def)

section \<open>C1: the round trip through the CSV text\<close>

lemma roundTrip_rows:
  assumes u: "u \<noteq> []" and nl: "LF \<notin> set u" "LF \<notin> set (toISOString env t)"
      and rows: "list_all (\<lambda>e. LF \<notin> set (expenseToCSVRow env e)) D"
  shows "roundTrip env t now u store D = Inr (fst (loadRows env now (row_lines env D) 7 ([], [])))"
proof -
  from saveExpenses_ok[OF u] obtain store' where s: "saveExpenses env t u D store = Inr store'" by blast
  from load_after_save[OF u nl rows s] obtain w where
    "loadExpenses env now u store' = Inr (fst (loadRows env now (row_lines env D) 7 ([], [])), w)" by blast
  then show ?thesis using s by (simp add: roundTrip_def)
qed

text \<open>
  Claim C1, as the code has it. Let every record of the dataset pass the field validators
  at the time of the reload, and let its \<open>id\<close>, \<open>description\<close> and \<open>date\<close> hold no line
  break and no leading or trailing white space, its row not begin with \<open>#\<close>, and its
  amount be printed and read back by the runtime unchanged; let the owner name be non-empty
  and, like the export time stamp, without a line break. Then saving the dataset and
  loading it again yields the dataset itself, whatever the store held before. A
  description may contain delimiters and quote characters.
\<close>

theorem roundtrip_stable_records:
  assumes u: "username \<noteq> []" and nl: "LF \<notin> set username" "LF \<notin> set (toISOString env t)"
      and D: "list_all (\<lambda>e. isValid env now e \<and> stable_record env e) D"
  shows "roundTrip env t now username store D = Inr D"
proof -
  have rows: "list_all (\<lambda>e. LF \<notin> set (expenseToCSVRow env e)) D"
    using D row_line(4) by (auto simp: list_all_iff)
  have "fst (loadRows env now (row_lines env D) 7 ([], [])) = D"
  proof (cases "D = []")
    case True
    then show ?thesis by (simp add: row_lines_def trim_def)
  next
    case False
    then show ?thesis using loadRows_rows[OF D, of 7 "[]" "[]"] by (simp add: row_lines_def)
  qed
  then show ?thesis using roundTrip_rows[OF u nl rows] by simp
qed

theorem roundtrip_stable_records_witness:
  "roundTrip ref_env NOW NOW ''Saad'' [] [lunch] = Inr [lunch]"
proof -
  have 1: "''Saad'' \<noteq> []" by simp
  have 2: "LF \<notin> set ''Saad''" by (simp add: LF_def)
  have 3: "LF \<notin> set (toISOString ref_env NOW)" by (simp add: ref_iso_NOW LF_def)
  have 4: "list_all (\<lambda>e. isValid ref_env NOW e \<and> stable_record ref_env e) [lunch]"
    by (simp add: lunch_valid lunch_stable)
  show ?thesis by (rule roundtrip_stable_records[OF 1 2 3 4])
qed

lemma padded_valid: "isValid ref_env NOW padded"
  by (simp add: isValid_iff padded_def ref_dates validCategories_def NOW_def)

text \<open>
  Claim C1 as stated fails for a description with leading white space: the tokenizer
  trims every field, so the valid record \<open>padded\<close> with the description \<open>'' ab''\<close> comes
  back with the description \<open>''ab''\<close>.
\<close>

theorem roundtrip_counterexample:
  "isValid ref_env NOW padded \<and>
   roundTrip ref_env NOW NOW ''Saad'' [] [padded] = Inr [padded\<lparr>description := ''ab''\<rparr>] \<and>
   roundTrip ref_env NOW NOW ''Saad'' [] [padded] \<noteq> Inr [padded]"
proof -
  have row: "expenseToCSVRow ref_env padded = ''2,20,Housing, ab,2024-01-02''"
    by (simp add: expenseToCSVRow_def padded_def ref_numbers escapeCSVField_def COMMA_def QUOTE_def LF_def)
  have tr: "trim ''2,20,Housing, ab,2024-01-02'' = ''2,20,Housing, ab,2024-01-02''"
    by (simp add: trim_def is_ws_def)
  have tok: "tokenize ''2,20,Housing, ab,2024-01-02'' [] False = [''2'', ''20'', ''Housing'', ''ab'', ''2024-01-02'']"
    by (simp add: tokenize.simps COMMA_def QUOTE_def trim_def is_ws_def)
  have v: "validateExpense ref_env NOW (padded\<lparr>description := ''ab''\<rparr>) = []"
    by (simp add: validateExpense_def padded_def ref_dates validCategories_def NOW_def)
  have parsed: "csvRowToExpense ref_env NOW ''2,20,Housing, ab,2024-01-02'' 8
                = (Some (padded\<lparr>description := ''ab''\<rparr>), [])"
    using v by (simp add: csvRowToExpense_def tok ref_numbers padded_def)
  have rows: "list_all (\<lambda>e. LF \<notin> set (expenseToCSVRow ref_env e)) [padded]"
    by (simp add: row LF_def)
  have rt: "roundTrip ref_env NOW NOW ''Saad'' [] [padded] = Inr [padded\<lparr>description := ''ab''\<rparr>]"
    using roundTrip_rows[of "''Saad''" ref_env NOW "[padded]" NOW "[]", OF _ _ _ rows]
    by (simp add: ref_iso_NOW LF_def row_lines_def row tr parsed HASH_def)
  have ne: "padded\<lparr>description := ''ab''\<rparr> \<noteq> padded" by (simp add: padded_def)
  show ?thesis using rt ne padded_valid by simp
qed

section \<open>C2: restoring a backup file\<close>

text \<open>
  Claim C2. For a well-formed backup file and a non-empty owner name, with the elements of
  the array \<open>expenses\<close> as \<open>JSON.parse\<close> delivers them: when no element passes the
  validator of the restore path, \<open>restoreFromBackup\<close> returns \<open>success = false\<close> and
  \<open>restoredCount = 0\<close> and the store is the one it was given. When at least one element
  passes, the result is a success and \<open>restoredCount\<close> is the number of passing elements;
  the records committed are the passing elements themselves, in their order, the date
  written as a string; the store is the one \<open>saveExpenses\<close> produces for them, so that the
  dataset key holds the seven header lines and one row for each of them; when these
  records are such that a save and a reload keep them, \<open>loadExpenses\<close> returns exactly
  them from the store; and \<open>errors\<close> holds one message for each failing element.
\<close>

theorem restore_zero_or_passing_subset:
  assumes wf: "wellformed_backup fname content xs" and u: "username \<noteq> []"
  shows "(filter (passes env) xs = [] \<longrightarrow>
            \<not> restore_success (fst (restoreFromBackup env now username fname content store)) \<and>
            restoredCount (fst (restoreFromBackup env now username fname content store)) = 0 \<and>
            fst (snd (restoreFromBackup env now username fname content store)) = store) \<and>
         (filter (passes env) xs \<noteq> [] \<longrightarrow>
            restore_success (fst (restoreFromBackup env now username fname content store)) \<and>
            restoredCount (fst (restoreFromBackup env now username fname content store))
              = length (filter (passes env) xs) \<and>
            map (Some \<circ> of_expense) (committed env xs)
              = map (map_option (\<lambda>e. e\<lparr>any_date := JStr (js_String env (any_date e))\<rparr>))
                  (filter (passes env) xs) \<and>
            saveExpenses env now username (committed env xs) store
              = Inr (fst (snd (restoreFromBackup env now username fname content store))) \<and>
            getItem (fst (snd (restoreFromBackup env now username fname content store)))
              (''csv-'' @ getFileName username)
              = Some (Text (dataset_text env now username (committed env xs))) \<and>
            (LF \<notin> set username \<and> LF \<notin> set (toISOString env now) \<and>
             list_all (\<lambda>e. isValid env later e \<and> stable_record env e) (committed env xs) \<longrightarrow>
               loaded_records (loadExpenses env later username
                  (fst (snd (restoreFromBackup env now username fname content store))))
                 = Inr (committed env xs)) \<and>
            restore_errors (fst (restoreFromBackup env now username fname content store))
              = recordErrors env 0 xs \<and>
            length (restore_errors (fst (restoreFromBackup env now username fname content store)))
              = length xs - length (filter (passes env) xs))"
proof -
  let ?r = "restoreFromBackup env now username fname content store"
  note res = restore_wellformed_result[OF wf u, of env now store]
  have zero: "filter (passes env) xs = [] \<Longrightarrow>
        \<not> restore_success (fst ?r) \<and> restoredCount (fst ?r) = 0 \<and> fst (snd ?r) = store"
    using res by (simp add: restore_failure_def)
  have some: "restore_success (fst ?r) \<and>
        restoredCount (fst ?r) = length (filter (passes env) xs) \<and>
        saveExpenses env now username (committed env xs) store = Inr (fst (snd ?r)) \<and>
        getItem (fst (snd ?r)) (''csv-'' @ getFileName username)
          = Some (Text (dataset_text env now username (committed env xs))) \<and>
        (LF \<notin> set username \<and> LF \<notin> set (toISOString env now) \<and>
         list_all (\<lambda>e. isValid env later e \<and> stable_record env e) (committed env xs) \<longrightarrow>
           loaded_records (loadExpenses env later username (fst (snd ?r))) = Inr (committed env xs)) \<and>
        restore_errors (fst ?r) = recordErrors env 0 xs"
    if ne: "filter (passes env) xs \<noteq> []"
  proof -
    from res ne have s: "saveExpenses env now username (committed env xs) store = Inr (fst (snd ?r))"
      and rest: "restore_success (fst ?r)" "restoredCount (fst ?r) = length (filter (passes env) xs)"
        "restore_errors (fst ?r) = recordErrors env 0 xs"
      by simp_all
    have t: "getItem (fst (snd ?r)) (''csv-'' @ getFileName username)
          = Some (Text (dataset_text env now username (committed env xs)))"
      using saveExpenses_csv[OF s] by (simp add: csvContent_text)
    have l: "loaded_records (loadExpenses env later username (fst (snd ?r))) = Inr (committed env xs)"
      if "LF \<notin> set username" "LF \<notin> set (toISOString env now)"
         "list_all (\<lambda>e. isValid env later e \<and> stable_record env e) (committed env xs)"
      using load_saved_records[OF u that s] .
    show ?thesis using s rest t l by blast
  qed
  show ?thesis
    using zero some committed_elements[of env xs] length_recordErrors[of env 0 xs] by simp
qed

theorem restore_zero_or_passing_subset_witness:
  "(\<not> restore_success (fst (restoreFromBackup ref_env NOW ''Saad'' ''backup.json''
         (Json (BackupDoc rejected_backup)) old_store)) \<and>
    restoredCount (fst (restoreFromBackup ref_env NOW ''Saad'' ''backup.json''
         (Json (BackupDoc rejected_backup)) old_store)) = 0 \<and>
    fst (snd (restoreFromBackup ref_env NOW ''Saad'' ''backup.json''
         (Json (BackupDoc rejected_backup)) old_store)) = old_store) \<and>
   (restore_success (fst (restoreFromBackup ref_env NOW ''Saad'' ''backup.json''
         (Json (BackupDoc nan_backup)) old_store)) \<and>
    restoredCount (fst (restoreFromBackup ref_env NOW ''Saad'' ''backup.json''
         (Json (BackupDoc nan_backup)) old_store)) = 1 \<and>
    getItem (fst (snd (restoreFromBackup ref_env NOW ''Saad'' ''backup.json''
         (Json (BackupDoc nan_backup)) old_store))) ''csv-pak-kharcha-saad-expenses.csv''
      = Some (Text
         (''# Pak-Kharcha Expense Data Export'' @ [CHR 0x0A] @
          ''# Version: 2.0'' @ [CHR 0x0A] @
          ''# User: Saad'' @ [CHR 0x0A] @
          ''# Export Date: 2025-11-03T00:00:00.000Z'' @ [CHR 0x0A] @
          ''# Total Expenses: 1'' @ [CHR 0x0A] @
          ''#'' @ [CHR 0x0A] @
          ''id,amount,category,description,date'' @ [CHR 0x0A] @
          ''1,500,Food & Groceries,'' @ [CHR 0x22] @ ''Lunch, with '' @ [CHR 0x22, CHR 0x22] @
            ''friends'' @ [CHR 0x22, CHR 0x22, CHR 0x22] @ '',2024-01-01'')) \<and>
    loaded_records (loadExpenses ref_env NOW ''Saad''
       (fst (snd (restoreFromBackup ref_env NOW ''Saad'' ''backup.json''
         (Json (BackupDoc nan_backup)) old_store)))) = Inr [lunch] \<and>
    restore_errors (fst (restoreFromBackup ref_env NOW ''Saad'' ''backup.json''
         (Json (BackupDoc nan_backup)) old_store)) = [''Expense 2: Invalid expense amount''])"
proof -
  let ?xs = "[Some (of_expense lunch), Some ((of_expense unparsed)\<lparr>any_amount := JNull\<rparr>)]"
  have u: "''Saad'' \<noteq> []" by simp
  have wf0: "wellformed_backup ''backup.json'' (Json (BackupDoc rejected_backup)) [Some (of_expense negative)]"
    unfolding wellformed_backup_def rejected_parsed by (simp add: json_name rejected_backup_def)
  have wf1: "wellformed_backup ''backup.json'' (Json (BackupDoc nan_backup)) ?xs"
    unfolding wellformed_backup_def nan_parsed by (simp add: json_name)
  have f0: "filter (passes ref_env) [Some (of_expense negative)] = []" by (simp add: negative_fails)
  have f1: "filter (passes ref_env) ?xs = [Some (of_expense lunch)]"
    using lunch_passes by (simp add: passes_def null_amount_fails)
  have c1: "committed ref_env ?xs = [lunch]"
    unfolding committed_def f1 by (simp add: as_of_expense)
  have e1: "recordErrors ref_env 0 ?xs = [''Expense 2: Invalid expense amount'']"
    using lunch_passes by (simp add: null_amount_fails passes_def show_small)
  have k: "''csv-'' @ getFileName ''Saad'' = ''csv-pak-kharcha-saad-expenses.csv''"
    by (simp add: getFileName_def toLowerCase_def lower_char_def lower_table_def)
  have h: "LF \<notin> set ''Saad'' \<and> LF \<notin> set (toISOString ref_env NOW) \<and>
           list_all (\<lambda>e. isValid ref_env NOW e \<and> stable_record ref_env e) [lunch]"
    by (simp add: ref_iso_NOW LF_def lunch_valid lunch_stable)
  show ?thesis
    using restore_zero_or_passing_subset[OF wf0 u, of ref_env NOW old_store]
      restore_zero_or_passing_subset[OF wf1 u, of ref_env NOW old_store NOW] h
    unfolding f0 f1 c1 e1 k lunch_text by simp
qed

section \<open>C3: the counts of a partial import\<close>



section \<open>C5: a checksum mismatch never blocks\<close>

text \<open>
  Claim C5. The records \<open>loadExpenses\<close> returns do not depend on the stored metadata:
  whatever is written under the metadata key, checksum included, the same records are
  loaded. The store, the success flag, the count and the messages that
  \<open>restoreFromBackup\<close> returns do not depend on the checksum in the metadata of the backup
  file. The comparison of the checksums only decides whether a warning is logged.
\<close>

theorem checksum_never_blocks:
  "loaded_records (loadExpenses env now username
       (setItem store (''csv-metadata-'' @ getFileName username) m))
     = loaded_records (loadExpenses env now username store) \<and>
   fst (snd (restoreFromBackup env now username fname (Json (BackupDoc (with_checksum b c))) store))
     = fst (snd (restoreFromBackup env now username fname (Json (BackupDoc b)) store)) \<and>
   restore_success (fst (restoreFromBackup env now username fname (Json (BackupDoc (with_checksum b c))) store))
     = restore_success (fst (restoreFromBackup env now username fname (Json (BackupDoc b)) store)) \<and>
   restoredCount (fst (restoreFromBackup env now username fname (Json (BackupDoc (with_checksum b c))) store))
     = restoredCount (fst (restoreFromBackup env now username fname (Json (BackupDoc b)) store)) \<and>
   restore_errors (fst (restoreFromBackup env now username fname (Json (BackupDoc (with_checksum b c))) store))
     = restore_errors (fst (restoreFromBackup env now username fname (Json (BackupDoc b)) store))"
  using loaded_records_meta[of env now username store m]
    restore_checksum_independent[of env now username fname b c store]
  by blast

theorem checksum_never_blocks_witness:
  "loaded_records (loadExpenses ref_env NOW ''Saad''
       (setItem old_store (''csv-metadata-'' @ getFileName ''Saad'') (Text ''garbage'')))
     = loaded_records (loadExpenses ref_env NOW ''Saad'' old_store) \<and>
   fst (snd (restoreFromBackup ref_env NOW ''Saad'' ''backup.json''
         (Json (BackupDoc (with_checksum sample_backup ''ffff''))) old_store))
     = fst (snd (restoreFromBackup ref_env NOW ''Saad'' ''backup.json''
         (Json (BackupDoc sample_backup)) old_store)) \<and>
   restoredCount (fst (restoreFromBackup ref_env NOW ''Saad'' ''backup.json''
         (Json (BackupDoc (with_checksum sample_backup ''ffff''))) old_store))
     = restoredCount (fst (restoreFromBackup ref_env NOW ''Saad'' ''backup.json''
         (Json (BackupDoc sample_backup)) old_store))"
  using checksum_never_blocks[of ref_env NOW "''Saad''" old_store "Text ''garbage''"
      "''backup.json''" sample_backup "''ffff''"]
  by blast

section \<open>C9: restoring a local snapshot\<close>

text \<open>
  Claim C9, as the code has it. Let the store hold a snapshot under the key of the backup
  id, with the elements of its array \<open>expenses\<close> as \<open>JSON.parse\<close> delivers them, and let
  the owner name be non-empty. \<open>restoreFromLocalBackup\<close> returns \<open>true\<close> exactly when no
  element is \<open>null\<close> or has an amount that is \<open>null\<close> or missing; when there is such an
  element it returns \<open>false\<close> and the store is the one it was given. When every element
  is an object whose amount is a number, it returns \<open>true\<close> and the store is the one
  \<open>saveExpenses\<close> produces for all the elements as they are: the dataset key holds the
  seven header lines and one row for each element. No validator is applied.
\<close>

theorem local_restore_verbatim:
  assumes "username \<noteq> []"
      and "getItem store (''backup-'' @ username @ ''-'' @ backupId) = Some snapshot"
      and "snapshot_records snapshot = Some xs"
  shows "fst (restoreFromLocalBackup env now username backupId store) = (\<not> list_ex unprintable xs) \<and>
         (list_ex unprintable xs \<longrightarrow>
            snd (restoreFromLocalBackup env now username backupId store) = store) \<and>
         (list_all numeric xs \<longrightarrow>
            fst (restoreFromLocalBackup env now username backupId store) = True \<and>
            saveExpenses env now username (map (as_expense env \<circ> the) xs) store
              = Inr (snd (restoreFromLocalBackup env now username backupId store)) \<and>
            getItem (snd (restoreFromLocalBackup env now username backupId store))
              (''csv-'' @ getFileName username)
              = Some (Text (dataset_text env now username (map (as_expense env \<circ> the) xs))))"
proof -
  let ?r = "restoreFromLocalBackup env now username backupId store"
  note r = local_restore_result[OF assms(2,3), of env now]
  have bad: "?r = (False, store)" if "list_ex unprintable xs"
    using saveExpensesAny_unprintable[OF that, of env now username store] r by auto
  have good: "fst ?r = True" if "\<not> list_ex unprintable xs"
    using saveExpensesAny_printable[OF assms(1) that, of env now store] r by auto
  have num: "fst ?r = True \<and>
        saveExpenses env now username (map (as_expense env \<circ> the) xs) store = Inr (snd ?r) \<and>
        getItem (snd ?r) (''csv-'' @ getFileName username)
          = Some (Text (dataset_text env now username (map (as_expense env \<circ> the) xs)))"
    if n: "list_all numeric xs"
  proof -
    from saveExpenses_ok[OF assms(1)] obtain store' where
      s: "saveExpenses env now username (map (as_expense env \<circ> the) xs) store = Inr store'" by blast
    then have "?r = (True, store')"
      using r saveExpensesAny_numeric[OF n, of env now username store] by simp
    then show ?thesis using s saveExpenses_csv[OF s] by (simp add: csvContent_text)
  qed
  show ?thesis using bad good num by auto
qed

theorem local_restore_verbatim_witness:
  "fst (restoreFromLocalBackup ref_env NOW ''Saad'' ''1762128000000'' snapshot_store) = True \<and>
   getItem (snd (restoreFromLocalBackup ref_env NOW ''Saad'' ''1762128000000'' snapshot_store))
     ''csv-pak-kharcha-saad-expenses.csv''
     = Some (Text
        (''# Pak-Kharcha Expense Data Export'' @ [CHR 0x0A] @
         ''# Version: 2.0'' @ [CHR 0x0A] @
         ''# User: Saad'' @ [CHR 0x0A] @
         ''# Export Date: 2025-11-03T00:00:00.000Z'' @ [CHR 0x0A] @
         ''# Total Expenses: 2'' @ [CHR 0x0A] @
         ''#'' @ [CHR 0x0A] @
         ''id,amount,category,description,date'' @ [CHR 0x0A] @
         ''1,500,Food & Groceries,'' @ [CHR 0x22] @ ''Lunch, with '' @ [CHR 0x22, CHR 0x22] @
           ''friends'' @ [CHR 0x22, CHR 0x22, CHR 0x22] @ '',2024-01-01'' @ [CHR 0x0A] @
         ''3,-5,Housing,Refund,2024-01-02'')) \<and>
   \<not> isValid ref_env NOW negative \<and> \<not> passes ref_env (Some (of_expense negative))"
proof -
  let ?xs = "[Some (of_expense lunch), Some (of_expense negative)]"
  have u: "''Saad'' \<noteq> []" by simp
  have g: "getItem snapshot_store (''backup-'' @ ''Saad'' @ ''-'' @ ''1762128000000'')
             = Some (Json (BackupDoc sample_backup))"
    by (simp add: getItem_def snapshot_store_def)
  have n: "list_all numeric ?xs \<and> \<not> list_ex unprintable ?xs"
    by (simp add: numeric_def unprintable_def of_expense_def)
  have m: "map (as_expense ref_env \<circ> the) ?xs = [lunch, negative]"
    by (simp add: as_of_expense)
  have k: "''csv-'' @ getFileName ''Saad'' = ''csv-pak-kharcha-saad-expenses.csv''"
    by (simp add: getFileName_def toLowerCase_def lower_char_def lower_table_def)
  show ?thesis
    using local_restore_verbatim[OF u g sample_parsed, of ref_env NOW] n negative_fails
    unfolding m k sample_text by simp
qed

text \<open>
  Claim C9 as stated fails for a snapshot of a dataset that holds an amount \<open>NaN\<close>. The
  import path accepts the row \<open>5,abc,Housing,Taxi,2024-01-03\<close> as the record \<open>unparsed\<close>.
  The snapshot of a dataset with this record is stored as JSON text, in which the amount
  is \<open>null\<close>; \<open>expense.amount.toString()\<close> throws on it, and \<open>restoreFromLocalBackup\<close>
  returns \<open>false\<close> and writes nothing.
\<close>

theorem local_restore_null_amount:
  "csvRowToExpense ref_env NOW ''5,abc,Housing,Taxi,2024-01-03'' 8 = (Some unparsed, []) \<and>
   storeLocalBackup ref_env 1762128000000 ''Saad'' nan_backup [] = nan_store \<and>
   restoreFromLocalBackup ref_env NOW ''Saad'' ''1762128000000'' nan_store = (False, nan_store)"
proof -
  have g: "getItem nan_store (''backup-'' @ ''Saad'' @ ''-'' @ ''1762128000000'')
             = Some (Json (BackupDoc nan_backup))"
    by (simp add: getItem_def nan_store_def)
  have b: "list_ex unprintable [Some (of_expense lunch), Some ((of_expense unparsed)\<lparr>any_amount := JNull\<rparr>)]"
    by (simp add: unprintable_def)
  from saveExpensesAny_unprintable[OF b, of ref_env NOW "''Saad''" nan_store]
  have "restoreFromLocalBackup ref_env NOW ''Saad'' ''1762128000000'' nan_store = (False, nan_store)"
    using local_restore_result[OF g nan_records, of ref_env NOW] by auto
  then show ?thesis using unparsed_row nan_stored by simp
qed

section \<open>C10: an import replaces the dataset\<close>

text \<open>
  Claim C10. After a successful \<open>importUserData\<close> the dataset key of the owner holds the
  CSV text of exactly the accepted rows of the file, in their order: the seven header
  lines and one row for each accepted record; \<open>importedCount\<close> is their number. The
  accepted rows are determined by the file alone: nothing the store held before enters
  the dataset. When the accepted records are such that a save and a reload keep them,
  \<open>loadExpenses\<close> at any later time returns exactly the accepted records from the store.
\<close>

theorem import_replaces_dataset:
  assumes "success (fst (importUserData env now username f store))"
  shows "getItem (snd (importUserData env now username f store)) (''csv-'' @ getFileName username)
           = Some (Text (csvContent env now username (keepFirst [] (validRows env now (fileRows f))))) \<and>
         getItem (snd (importUserData env now username f store)) (''csv-'' @ getFileName username)
           = Some (Text (dataset_text env now username (keepFirst [] (validRows env now (fileRows f))))) \<and>
         importedCount (fst (importUserData env now username f store))
           = length (keepFirst [] (validRows env now (fileRows f))) \<and>
         (LF \<notin> set username \<and> LF \<notin> set (toISOString env now) \<and> now \<le> later \<and>
          list_all (stable_record env) (keepFirst [] (validRows env now (fileRows f))) \<longrightarrow>
            loaded_records (loadExpenses env later username (snd (importUserData env now username f store)))
              = Inr (keepFirst [] (validRows env now (fileRows f))))"
proof -
  let ?acc = "keepFirst [] (validRows env now (fileRows f))"
  have c: "recognized f \<and> username \<noteq> [] \<and> st_expenses (importLoop env now f) \<noteq> []"
    using assms import_failure_cases[of f username env now store] by blast
  then obtain store' where
    s: "saveExpenses env now username (st_expenses (importLoop env now f)) store = Inr store'"
    and r: "importUserData env now username f store =
             (\<lparr>success = True, importedCount = st_importedCount (importLoop env now f),
               skippedCount = st_skippedCount (importLoop env now f),
               errors = st_errors (importLoop env now f)\<rparr>, store')"
    using import_success[of f username env now store] by blast
  have s': "saveExpenses env now username ?acc store = Inr store'"
    using s by (simp add: importLoop_spec(1))
  have n: "st_importedCount (importLoop env now f) = length ?acc"
    using importLoop_spec(2)[of env now f] length_keepFirst[of "[]" "validRows env now (fileRows f)"]
    by simp
  have v: "isValid env now e" if "e \<in> set ?acc" for e
    using that set_keepFirst[of "[]" "validRows env now (fileRows f)"] validRows_valid[of e env now]
    by auto
  have l: "loaded_records (loadExpenses env later username store') = Inr ?acc"
    if h: "LF \<notin> set username" "LF \<notin> set (toISOString env now)" "now \<le> later"
          "list_all (stable_record env) ?acc"
  proof -
    have "list_all (\<lambda>e. isValid env later e \<and> stable_record env e) ?acc"
      using v isValid_later[OF _ h(3)] h(4) by (auto simp: list_all_iff)
    with c h(1,2) s' show ?thesis using load_saved_records[of username env now later ?acc store store']
      by blast
  qed
  show ?thesis
    using r n l saveExpenses_csv[OF s'] by (simp add: csvContent_text)
qed

theorem import_replaces_dataset_witness:
  "getItem old_store ''csv-pak-kharcha-saad-expenses.csv'' = Some (Text ''old'') \<and>
   getItem (snd (importUserData ref_env NOW ''Saad'' import_file old_store)) ''csv-pak-kharcha-saad-expenses.csv''
     = Some (Text
        (''# Pak-Kharcha Expense Data Export'' @ [CHR 0x0A] @
         ''# Version: 2.0'' @ [CHR 0x0A] @
         ''# User: Saad'' @ [CHR 0x0A] @
         ''# Export Date: 2025-11-03T00:00:00.000Z'' @ [CHR 0x0A] @
         ''# Total Expenses: 2'' @ [CHR 0x0A] @
         ''#'' @ [CHR 0x0A] @
         ''id,amount,category,description,date'' @ [CHR 0x0A] @
         ''1,500,Food & Groceries,Lunch,2024-01-01'' @ [CHR 0x0A] @
         ''4,20,Housing,Rent,2024-01-02'')) \<and>
   importedCount (fst (importUserData ref_env NOW ''Saad'' import_file old_store)) = 2 \<and>
   loaded_records (loadExpenses ref_env NOW ''Saad''
      (snd (importUserData ref_env NOW ''Saad'' import_file old_store))) = Inr [row1, row4]"
proof -
  have u: "''Saad'' \<noteq> []" by simp
  have a: "st_expenses (importLoop ref_env NOW import_file) \<noteq> []"
    unfolding importLoop_spec(1) import_valid import_dups by simp
  from import_success[OF import_recognized u a, of old_store]
  have s: "success (fst (importUserData ref_env NOW ''Saad'' import_file old_store))" by auto
  have k: "''csv-'' @ getFileName ''Saad'' = ''csv-pak-kharcha-saad-expenses.csv''"
    by (simp add: getFileName_def toLowerCase_def lower_char_def lower_table_def)
  have o: "getItem old_store ''csv-pak-kharcha-saad-expenses.csv'' = Some (Text ''old'')"
    by (simp add: getItem_def old_store_def)
  have h: "LF \<notin> set ''Saad'' \<and> LF \<notin> set (toISOString ref_env NOW) \<and> NOW \<le> NOW \<and>
           list_all (stable_record ref_env) [row1, row4]"
    by (simp add: ref_iso_NOW LF_def rows_stable)
  show ?thesis
    using import_replaces_dataset[OF s, of NOW] o h
    unfolding import_valid import_dups k csvContent_text rows_text by simp
qed

end
